theory Spec2Isabelle
  imports Main
begin

section \<open>Exceptions, notifications and the run state\<close>

text \<open>
  The two entry points, \<^verbatim>\<open>app.py\<close> and \<^verbatim>\<open>streamlit_app.py\<close>, are glue around hosted
  services. A Python exception is a value: its class and the text \<^verbatim>\<open>str(e)\<close> gives.
  \<open>OtherException\<close> stands for every class below \<^verbatim>\<open>Exception\<close> that the scripts do not
  name; what a service call may raise is any value of \<open>exn\<close>.
\<close>

datatype exn_class = KeyError | FileNotFoundError | OtherException

datatype exn = Exn (cls: exn_class) (str: string)

text \<open>
  The calls \<^verbatim>\<open>st.info\<close>, \<^verbatim>\<open>st.success\<close>, \<^verbatim>\<open>st.warning\<close> and \<^verbatim>\<open>st.error\<close> put a notification on
  the page. The model keeps them in the order in which they were issued.
\<close>

datatype notice = Info string | Success string | Warning string | Error string

text \<open>
  Every call that leaves the process is recorded, in order, with its arguments: the
  trace is what the claims about "one call per symbol" and "no retries" are stated on.
\<close>

datatype call =
    FetchTrades
  | FetchJournals
  | GetCandlestickData string int int
  | AuthSignUp string string
  | AuthSignInWithPassword string string

text \<open>
  The state of a run: the world outside the process (the hosted services, the clock,
  the file system, the random generator), the notifications shown so far and the trace
  of outside calls. The world is a type parameter: the theorems hold for every
  behaviour of the services, stateful ones included.
\<close>

record 'w run =
  world :: 'w
  notices :: "notice list"
  calls :: "call list"

definition st_info :: "string \<Rightarrow> 'w run \<Rightarrow> 'w run" where
  "st_info m s = s\<lparr>notices := notices s @ [Info m]\<rparr>"

definition st_success :: "string \<Rightarrow> 'w run \<Rightarrow> 'w run" where
  "st_success m s = s\<lparr>notices := notices s @ [Success m]\<rparr>"

definition st_warning :: "string \<Rightarrow> 'w run \<Rightarrow> 'w run" where
  "st_warning m s = s\<lparr>notices := notices s @ [Warning m]\<rparr>"

definition st_error :: "string \<Rightarrow> 'w run \<Rightarrow> 'w run" where
  "st_error m s = s\<lparr>notices := notices s @ [Error m]\<rparr>"

text \<open>
  An outside call \<open>f\<close> reads and changes the world and either raises (\<open>Inl\<close>) or returns
  (\<open>Inr\<close>); \<open>external c f\<close> runs it and appends \<open>c\<close> to the trace.
\<close>

definition external :: "call \<Rightarrow> ('w \<Rightarrow> (exn + 'a) \<times> 'w) \<Rightarrow> 'w run \<Rightarrow> (exn + 'a) \<times> 'w run" where
  "external c f s =
     (case f (world s) of (r, w') \<Rightarrow> (r, s\<lparr>world := w', calls := calls s @ [c]\<rparr>))"

text \<open>Python's truth value of a string-or-\<^verbatim>\<open>None\<close>: \<^verbatim>\<open>None\<close> and \<^verbatim>\<open>""\<close> are false.\<close>

fun truthy :: "string option \<Rightarrow> bool" where
  "truthy None = False"
| "truthy (Some v) = (v \<noteq> [])"

text \<open>\<^verbatim>\<open>sep.join(xs)\<close>.\<close>

fun join :: "string \<Rightarrow> string list \<Rightarrow> string" where
  "join sep [] = []"
| "join sep [x] = x"
| "join sep (x # y # ys) = x @ sep @ join sep (y # ys)"


section \<open>app.py\<close>

subsection \<open>Configuration and clients\<close>

text \<open>
  \<^verbatim>\<open>config/config.py\<close> is not among the sources at hand. \<open>config\<close> holds what \<^verbatim>\<open>app.py\<close>
  reads from the class \<^verbatim>\<open>Config\<close>: the attributes handed to the client constructors and
  the results of the class methods \<^verbatim>\<open>is_*_configured()\<close> and \<^verbatim>\<open>validate()\<close>. They are
  parameters of the model; nothing is assumed about how they relate.
\<close>

record config =
  SUPABASE_URL :: "string option"
  SUPABASE_KEY :: "string option"
  TOPSTEP_API_KEY :: "string option"
  DATABENTO_API_KEY :: "string option"
  OPENAI_API_KEY :: "string option"
  OPENAI_MODEL :: "string option"
  is_supabase_configured :: bool
  is_topstep_configured :: bool
  is_databento_configured :: bool
  is_openai_configured :: bool
  validate :: "string list"

text \<open>
  A client object is the record of the arguments it was constructed with; its methods
  are fields of \<open>services\<close> below. Constructing a client is taken to return: the
  constructors' sources are not at hand and \<^verbatim>\<open>init_clients\<close> calls them outside any
  \<^verbatim>\<open>try\<close>. A client object is true in a Python condition.
\<close>

datatype supabase_client = SupabaseClient "string option" "string option"
datatype topstep_client = TopStepClient "string option"
datatype databento_client = DatabentoClient "string option"
datatype nlp_processor = NLPProcessor "string option" "string option"

text \<open>\<^verbatim>\<open>init_clients\<close>, app.py lines 28 to 34.\<close>

definition init_clients ::
  "config \<Rightarrow> supabase_client option \<times> topstep_client option \<times>
     databento_client option \<times> nlp_processor option" where
  "init_clients cfg =
     (let supabase_client =
            (if is_supabase_configured cfg
             then Some (SupabaseClient (SUPABASE_URL cfg) (SUPABASE_KEY cfg)) else None);
          topstep_client =
            (if is_topstep_configured cfg
             then Some (TopStepClient (TOPSTEP_API_KEY cfg)) else None);
          databento_client =
            (if is_databento_configured cfg
             then Some (DatabentoClient (DATABENTO_API_KEY cfg)) else None);
          nlp_processor =
            (if is_openai_configured cfg
             then Some (NLPProcessor (OPENAI_API_KEY cfg) (OPENAI_MODEL cfg)) else None)
      in (supabase_client, topstep_client, databento_client, nlp_processor))"

subsection \<open>Data\<close>

text \<open>
  A trade and a journal are rows as the database client returns them: dictionaries from
  field names to values. \<open>'f\<close> is the type of a table of candles (a data frame).
\<close>

type_synonym row = "string \<rightharpoonup> string"

type_synonym 'f market_data = "string \<rightharpoonup> 'f"

text \<open>
  The collaborators of \<^verbatim>\<open>load_data\<close>. The three service methods are called inside
  \<^verbatim>\<open>try\<close> blocks and may raise; the sample generator, \<^verbatim>\<open>os.path.exists\<close>, \<^verbatim>\<open>pd.read_csv\<close> and
  \<^verbatim>\<open>pd.to_datetime\<close> are called outside any \<^verbatim>\<open>try\<close> and are taken to return. \<open>now\<close> is
  \<^verbatim>\<open>datetime.now()\<close> in microseconds.
\<close>

record ('w, 'f) services =
  fetch_trades :: "supabase_client \<Rightarrow> 'w \<Rightarrow> (exn + row list) \<times> 'w"
  fetch_journals :: "supabase_client \<Rightarrow> 'w \<Rightarrow> (exn + row list) \<times> 'w"
  get_candlestick_data ::
    "databento_client \<Rightarrow> string \<Rightarrow> int \<Rightarrow> int \<Rightarrow> 'w \<Rightarrow> (exn + 'f) \<times> 'w"
  generate_trades :: "nat \<Rightarrow> 'w \<Rightarrow> row list \<times> 'w"
  generate_journals :: "row list \<Rightarrow> 'w \<Rightarrow> row list \<times> 'w"
  path_exists :: "string \<Rightarrow> 'w \<Rightarrow> bool"
  read_csv :: "string \<Rightarrow> 'w \<Rightarrow> 'f"
  to_datetime_timestamp :: "'f \<Rightarrow> 'f"
  now :: "'w \<Rightarrow> int"

text \<open>\<^verbatim>\<open>timedelta(days=n)\<close> in microseconds.\<close>

definition timedelta_days :: "int \<Rightarrow> int" where
  "timedelta_days n = n * 86400 * 1000000"

subsection \<open>load\_data\<close>

text \<open>
  The sample branch, app.py lines 46 to 57. The path of the sample file is the literal
  of line 52.
\<close>

definition sample_market_data_path :: string where
  "sample_market_data_path = ''./data/sample_market_data_MES.csv''"

definition load_sample ::
  "('w, 'f) services \<Rightarrow> 'w run \<Rightarrow> (row list \<times> row list \<times> 'f market_data) \<times> 'w run" where
  "load_sample sv s =
     (let s0 = st_info ''Loading sample data...'' s in
      case generate_trades sv 100 (world s0) of (trades, w1) \<Rightarrow>
      case generate_journals sv trades w1 of (journals, w2) \<Rightarrow>
      let s1 = s0\<lparr>world := w2\<rparr> in
      if path_exists sv sample_market_data_path (world s1)
      then ((trades, journals,
               [''MES'' \<mapsto> to_datetime_timestamp sv (read_csv sv sample_market_data_path (world s1))]),
            s1)
      else ((trades, journals, Map.empty),
            st_warning (''Sample market data not found at '' @ sample_market_data_path
                        @ ''. Please run sample_data_generator.py.'') s1))"

text \<open>
  The database part of the live branch, lines 60 to 68. \<^verbatim>\<open>trades\<close> and \<^verbatim>\<open>journals\<close> start
  as empty lists (lines 41 and 42); an exception leaves what was not yet assigned empty.
\<close>

definition load_supabase ::
  "('w, 'f) services \<Rightarrow> supabase_client option \<Rightarrow> 'w run \<Rightarrow> (row list \<times> row list) \<times> 'w run" where
  "load_supabase sv supabase_client s =
     (case supabase_client of
        None \<Rightarrow> (([], []), st_warning ''Supabase client not configured. Cannot fetch live data.'' s)
      | Some c \<Rightarrow>
          (case external FetchTrades (fetch_trades sv c) s of
             (Inl e, s1) \<Rightarrow>
               (([], []), st_error (''Error fetching data from Supabase: '' @ str e) s1)
           | (Inr trades, s1) \<Rightarrow>
               (case external FetchJournals (fetch_journals sv c) s1 of
                  (Inl e, s2) \<Rightarrow>
                    ((trades, []), st_error (''Error fetching data from Supabase: '' @ str e) s2)
                | (Inr journals, s2) \<Rightarrow>
                    ((trades, journals), st_success ''Data fetched from Supabase.'' s2))))"

text \<open>
  The comprehension \<^verbatim>\<open>[trade["symbol"] for trade in trades]\<close> of line 72: the first row
  without the key raises \<^verbatim>\<open>KeyError\<close>.
\<close>

fun symbol_column :: "row list \<Rightarrow> exn + string list" where
  "symbol_column [] = Inr []"
| "symbol_column (trade # rest) =
     (case trade ''symbol'' of
        None \<Rightarrow> Inl (Exn KeyError (CHR 0x27 # ''symbol'' @ [CHR 0x27]))
      | Some v \<Rightarrow> (case symbol_column rest of Inl e \<Rightarrow> Inl e | Inr vs \<Rightarrow> Inr (v # vs)))"

text \<open>
  The loop of lines 73 to 81 over the symbols still to fetch: each round reads the
  clock, asks for the thirty days before it, and either stores the table under the
  symbol or reports the exception and goes on.
\<close>

fun fetch_candles ::
  "('w, 'f) services \<Rightarrow> databento_client \<Rightarrow> string list \<Rightarrow> 'f market_data \<Rightarrow> 'w run
     \<Rightarrow> 'f market_data \<times> 'w run" where
  "fetch_candles sv db [] market_data s = (market_data, s)"
| "fetch_candles sv db (symbol # rest) market_data s =
     (let end_date = now sv (world s);
          start_date = end_date - timedelta_days 30 in
      case external (GetCandlestickData symbol start_date end_date)
             (get_candlestick_data sv db symbol start_date end_date) s of
        (Inl e, s1) \<Rightarrow>
          fetch_candles sv db rest market_data
            (st_error (''Error fetching market data for '' @ symbol @ '' from Databento: '' @ str e) s1)
      | (Inr df, s1) \<Rightarrow>
          fetch_candles sv db rest (market_data(symbol \<mapsto> df)) s1)"

text \<open>
  Lines 71 to 81. \<^verbatim>\<open>list(set(...))\<close> keeps one copy of each symbol in an order Python
  does not fix; \<open>remdups\<close> is one such order, and no theorem below depends on which.
\<close>

definition load_market ::
  "('w, 'f) services \<Rightarrow> databento_client option \<Rightarrow> row list \<Rightarrow> 'w run
     \<Rightarrow> (exn + 'f market_data) \<times> 'w run" where
  "load_market sv databento_client trades s =
     (case databento_client of
        None \<Rightarrow> (Inr Map.empty, s)
      | Some db \<Rightarrow>
          if trades \<noteq> [] then
            (case symbol_column trades of
               Inl e \<Rightarrow> (Inl e, s)
             | Inr vs \<Rightarrow>
                 (case fetch_candles sv db (remdups vs) Map.empty s of
                    (market_data, s') \<Rightarrow> (Inr market_data, s')))
          else (Inr Map.empty, s))"

text \<open>
  \<^verbatim>\<open>load_data\<close>, lines 40 to 83, as its body runs (the decorator \<^verbatim>\<open>st.cache_data\<close> replays
  a stored result for an hour and is not modelled). The module-level clients are
  arguments. The result is the returned triple, or the exception that left the function.
\<close>

definition load_data ::
  "('w, 'f) services \<Rightarrow> supabase_client option \<Rightarrow> databento_client option \<Rightarrow> bool \<Rightarrow> 'w run
     \<Rightarrow> (exn + row list \<times> row list \<times> 'f market_data) \<times> 'w run" where
  "load_data sv supabase_client databento_client use_sample_data s =
     (if use_sample_data then
        (case load_sample sv s of (d, s') \<Rightarrow> (Inr d, s'))
      else
        (case load_supabase sv supabase_client s of
           ((trades, journals), s1) \<Rightarrow>
             (case load_market sv databento_client trades s1 of
                (Inl e, s2) \<Rightarrow> (Inl e, s2)
              | (Inr market_data, s2) \<Rightarrow> (Inr (trades, journals, market_data), s2))))"

subsection \<open>main\<close>

text \<open>The warning sign and variation selector of line 97, as UTF-8 bytes.\<close>

definition warning_sign :: string where
  "warning_sign = [CHR 0xE2, CHR 0x9A, CHR 0xA0, CHR 0xEF, CHR 0xB8, CHR 0x8F]"

text \<open>
  Lines 95 to 98 of \<^verbatim>\<open>main\<close>: when \<^verbatim>\<open>Config.validate()\<close> names missing values, an error
  and a hint are shown, and the run goes on (\<^verbatim>\<open>st.stop()\<close> is commented out).
\<close>

definition check_configuration :: "config \<Rightarrow> 'w run \<Rightarrow> 'w run" where
  "check_configuration cfg s =
     (let missing_config = validate cfg in
      if missing_config \<noteq> [] then
        st_info ''Please set up your `.env` file with the required API keys. See `.env.example` for reference.''
          (st_error (warning_sign @ '' Missing required configuration: ''
                     @ join '', '' missing_config) s)
      else s)"

text \<open>
  \<^verbatim>\<open>main\<close>, lines 86 to 127, up to the data it hands to the page renderers: the
  configuration check, the checkbox and the call of \<^verbatim>\<open>load_data\<close>. \<open>checkbox\<close> is what the
  user did with "Use Sample Data": \<open>None\<close> leaves it at its default, \<open>Some b\<close> sets it.
  The sidebar, the metrics and the page renderers only draw and are left out.
\<close>

definition main ::
  "('w, 'f) services \<Rightarrow> config \<Rightarrow> bool option \<Rightarrow> 'w run
     \<Rightarrow> (exn + row list \<times> row list \<times> 'f market_data) \<times> 'w run" where
  "main sv cfg checkbox s =
     (case init_clients cfg of
        (supabase_client, topstep_client, databento_client, nlp_processor) \<Rightarrow>
     let s1 = check_configuration cfg s;
         is_any_api_configured =
           (is_supabase_configured cfg \<or> is_topstep_configured cfg \<or>
            is_databento_configured cfg \<or> is_openai_configured cfg);
         use_sample_data = (case checkbox of None \<Rightarrow> \<not> is_any_api_configured | Some b \<Rightarrow> b)
     in load_data sv supabase_client databento_client use_sample_data s1)"

subsection \<open>Reading a run\<close>

text \<open>
  What a run from state \<open>s\<close> to state \<open>s'\<close> added to the trace: the outside calls it made.
\<close>

definition calls_since :: "'w run \<Rightarrow> 'w run \<Rightarrow> call list" where
  "calls_since s s' = drop (length (calls s)) (calls s')"

text \<open>The symbols of the candlestick requests in a trace, in order, repeats kept.\<close>

fun candle_symbols :: "call list \<Rightarrow> string list" where
  "candle_symbols [] = []"
| "candle_symbols (GetCandlestickData symbol start_date end_date # cs) =
     symbol # candle_symbols cs"
| "candle_symbols (c # cs) = candle_symbols cs"

text \<open>A request in a trace asks for exactly thirty days.\<close>

fun thirty_day_window :: "call \<Rightarrow> bool" where
  "thirty_day_window (GetCandlestickData symbol start_date end_date) =
     (end_date - start_date = timedelta_days 30)"
| "thirty_day_window c = True"

text \<open>The symbols that occur in a list of trades, one entry per trade that has one.\<close>

fun trade_symbols :: "row list \<Rightarrow> string list" where
  "trade_symbols [] = []"
| "trade_symbols (t # ts) =
     (case t ''symbol'' of None \<Rightarrow> trade_symbols ts | Some v \<Rightarrow> v # trade_symbols ts)"

text \<open>
  The trace the claim "one request per symbol, for the thirty days ending now"
  describes, for the symbols \<open>syms\<close> from world \<open>w\<close> on: one request per symbol, its window
  ending at the clock reading of the world it is made in, the world moving on by what
  the request does to it.
\<close>

fun candle_trace ::
  "('w, 'f) services \<Rightarrow> databento_client \<Rightarrow> string list \<Rightarrow> 'w \<Rightarrow> call list" where
  "candle_trace sv db [] w = []"
| "candle_trace sv db (symbol # rest) w =
     GetCandlestickData symbol (now sv w - timedelta_days 30) (now sv w)
     # candle_trace sv db rest
         (snd (get_candlestick_data sv db symbol (now sv w - timedelta_days 30) (now sv w) w))"

text \<open>
  What the vendor answered to those requests: each symbol with the table or the
  exception its request gave.
\<close>

fun candle_outcomes ::
  "('w, 'f) services \<Rightarrow> databento_client \<Rightarrow> string list \<Rightarrow> 'w \<Rightarrow> (string \<times> (exn + 'f)) list" where
  "candle_outcomes sv db [] w = []"
| "candle_outcomes sv db (symbol # rest) w =
     (symbol, fst (get_candlestick_data sv db symbol (now sv w - timedelta_days 30) (now sv w) w))
     # candle_outcomes sv db rest
         (snd (get_candlestick_data sv db symbol (now sv w - timedelta_days 30) (now sv w) w))"

text \<open>The table an answer list holds for a symbol: the one its request returned, if it did.\<close>

definition answered :: "(string \<times> (exn + 'f)) list \<Rightarrow> string \<Rightarrow> 'f option" where
  "answered outcomes v =
     (case map_of outcomes v of Some (Inr df) \<Rightarrow> Some df | Some (Inl e) \<Rightarrow> None | None \<Rightarrow> None)"

text \<open>The error notifications for the requests that raised, in order.\<close>

fun candle_errors :: "(string \<times> (exn + 'f)) list \<Rightarrow> notice list" where
  "candle_errors [] = []"
| "candle_errors ((symbol, Inl e) # rest) =
     Error (''Error fetching market data for '' @ symbol @ '' from Databento: '' @ str e)
     # candle_errors rest"
| "candle_errors ((symbol, Inr df) # rest) = candle_errors rest"


section \<open>streamlit\_app.py\<close>

subsection \<open>Settings\<close>

text \<open>
  \<^verbatim>\<open>load_dotenv()\<close> adds the variables of the \<^verbatim>\<open>.env\<close> file to the process environment
  and keeps the value of a variable that is already set.
\<close>

definition load_dotenv :: "(string \<rightharpoonup> string) \<Rightarrow> (string \<rightharpoonup> string) \<Rightarrow> (string \<rightharpoonup> string)" where
  "load_dotenv dotenv environ = dotenv ++ environ"

text \<open>
  What Streamlit finds where it looks for \<^verbatim>\<open>secrets.toml\<close>: no file, a file it cannot
  parse, or a file with its keys and values.
\<close>

datatype secrets_file =
  NoSecretsFile | UnparsableSecretsFile | SecretsFile "string \<rightharpoonup> string"

text \<open>
  \<^verbatim>\<open>st.secrets[key]\<close>. Without a secrets file, and with one that does not parse, the lookup
  raises Streamlit's secret-not-found error, which is a \<^verbatim>\<open>FileNotFoundError\<close>; with a file
  that parses but lacks the key it raises \<^verbatim>\<open>KeyError\<close>.
\<close>

definition st_secrets :: "secrets_file \<Rightarrow> string \<Rightarrow> exn + string" where
  "st_secrets secrets key =
     (case secrets of
        NoSecretsFile \<Rightarrow> Inl (Exn FileNotFoundError ''No secrets files found.'')
      | UnparsableSecretsFile \<Rightarrow> Inl (Exn FileNotFoundError ''Error parsing secrets file.'')
      | SecretsFile m \<Rightarrow>
          (case m key of
             None \<Rightarrow> Inl (Exn KeyError (CHR 0x27 # key @ [CHR 0x27]))
           | Some v \<Rightarrow> Inr v))"

record settings =
  supabase_url :: "string option"
  supabase_key :: "string option"
  databento_api_key :: "string option"

text \<open>
  Lines 21 to 29: the three secrets are read in order; only \<^verbatim>\<open>FileNotFoundError\<close> is
  caught, and then all three come from \<^verbatim>\<open>os.getenv\<close>. Any other exception leaves the script.
\<close>

definition read_settings :: "secrets_file \<Rightarrow> (string \<rightharpoonup> string) \<Rightarrow> exn + settings" where
  "read_settings secrets environ =
     (let attempt =
        (case st_secrets secrets ''SUPABASE_URL'' of
           Inl e \<Rightarrow> Inl e
         | Inr url \<Rightarrow>
             (case st_secrets secrets ''SUPABASE_KEY'' of
                Inl e \<Rightarrow> Inl e
              | Inr key \<Rightarrow>
                  (case st_secrets secrets ''DATABENTO_API_KEY'' of
                     Inl e \<Rightarrow> Inl e
                   | Inr dkey \<Rightarrow>
                       Inr \<lparr>supabase_url = Some url, supabase_key = Some key,
                            databento_api_key = Some dkey\<rparr>)))
      in case attempt of
           Inr cfg \<Rightarrow> Inr cfg
         | Inl e \<Rightarrow>
             if cls e = FileNotFoundError
             then Inr \<lparr>supabase_url = environ ''SUPABASE_URL'',
                       supabase_key = environ ''SUPABASE_KEY'',
                       databento_api_key = environ ''DATABENTO_API_KEY''\<rparr>
             else Inl e)"

text \<open>Lines 18 to 29 together: \<^verbatim>\<open>load_dotenv()\<close> runs first.\<close>

definition startup_settings ::
  "secrets_file \<Rightarrow> (string \<rightharpoonup> string) \<Rightarrow> (string \<rightharpoonup> string) \<Rightarrow> exn + settings" where
  "startup_settings secrets dotenv environ = read_settings secrets (load_dotenv dotenv environ)"

subsection \<open>Clients\<close>

text \<open>
  A constructed client is the record of the arguments it was constructed with. The
  constructors themselves, \<^verbatim>\<open>create_client\<close> of the Supabase library and \<^verbatim>\<open>db.Historical\<close> of
  the Databento library, validate their arguments and may raise; the script calls them
  outside any \<^verbatim>\<open>try\<close>. They are parameters of the model.
\<close>

datatype client = Client "string option" "string option"
datatype historical = Historical "string option"

record libraries =
  create_client :: "string option \<Rightarrow> string option \<Rightarrow> exn + client"
  db_Historical :: "string option \<Rightarrow> exn + historical"

text \<open>
  Lines 33 to 37 and 40 to 44. The result is the returned client or \<^verbatim>\<open>None\<close>, or the
  exception of the constructor, which leaves the function.
\<close>

definition init_supabase_client :: "libraries \<Rightarrow> settings \<Rightarrow> exn + client option" where
  "init_supabase_client lib cfg =
     (if truthy (supabase_url cfg) \<and> truthy (supabase_key cfg)
      then (case create_client lib (supabase_url cfg) (supabase_key cfg) of
              Inl e \<Rightarrow> Inl e
            | Inr c \<Rightarrow> Inr (Some c))
      else Inr None)"

definition init_databento_client :: "libraries \<Rightarrow> settings \<Rightarrow> exn + historical option" where
  "init_databento_client lib cfg =
     (if truthy (databento_api_key cfg)
      then (case db_Historical lib (databento_api_key cfg) of
              Inl e \<Rightarrow> Inl e
            | Inr h \<Rightarrow> Inr (Some h))
      else Inr None)"

subsection \<open>Authentication\<close>

text \<open>
  The hosted auth service: \<^verbatim>\<open>supabase.auth.sign_up\<close> and
  \<^verbatim>\<open>supabase.auth.sign_in_with_password\<close>, each returning the \<^verbatim>\<open>user\<close> of its response or
  raising. \<open>'u\<close> is the type of that value.
\<close>

record ('w, 'u) auth =
  auth_sign_up :: "client \<Rightarrow> string \<Rightarrow> string \<Rightarrow> 'w \<Rightarrow> (exn + 'u) \<times> 'w"
  auth_sign_in_with_password :: "client \<Rightarrow> string \<Rightarrow> string \<Rightarrow> 'w \<Rightarrow> (exn + 'u) \<times> 'w"

text \<open>\<^verbatim>\<open>st.session_state\<close>, a dictionary that lives as long as the browser session.\<close>

type_synonym 'u session = "string \<rightharpoonup> 'u"

text \<open>
  \<^verbatim>\<open>sign_up\<close>, lines 50 to 60. The result is the returned pair \<^verbatim>\<open>(user, error)\<close>, the
  session state and the run state.
\<close>

definition sign_up ::
  "('w, 'u) auth \<Rightarrow> client option \<Rightarrow> string \<Rightarrow> string \<Rightarrow> 'u session \<Rightarrow> 'w run
     \<Rightarrow> ('u option \<times> string option) \<times> 'u session \<times> 'w run" where
  "sign_up au supabase email password ss s =
     (case supabase of
        None \<Rightarrow>
          ((None, Some ''Supabase client not initialized.''), ss,
           st_error ''Supabase client is not initialized. Check your API keys.'' s)
      | Some c \<Rightarrow>
          (case external (AuthSignUp email password) (auth_sign_up au c email password) s of
             (Inr user, s1) \<Rightarrow>
               ((Some user, None), ss,
                st_success ''Sign-up successful! Please check your email to verify your account.'' s1)
           | (Inl e, s1) \<Rightarrow> ((None, Some (str e)), ss, s1)))"

text \<open>\<^verbatim>\<open>sign_in\<close>, lines 62 to 73.\<close>

definition sign_in ::
  "('w, 'u) auth \<Rightarrow> client option \<Rightarrow> string \<Rightarrow> string \<Rightarrow> 'u session \<Rightarrow> 'w run
     \<Rightarrow> ('u option \<times> string option) \<times> 'u session \<times> 'w run" where
  "sign_in au supabase email password ss s =
     (case supabase of
        None \<Rightarrow>
          ((None, Some ''Supabase client not initialized.''), ss,
           st_error ''Supabase client is not initialized. Check your API keys.'' s)
      | Some c \<Rightarrow>
          (case external (AuthSignInWithPassword email password)
                  (auth_sign_in_with_password au c email password) s of
             (Inr user, s1) \<Rightarrow>
               ((Some user, None), ss(''user'' \<mapsto> user), st_success ''Signed in successfully!'' s1)
           | (Inl e, s1) \<Rightarrow> ((None, Some (str e)), ss, s1)))"

text \<open>
  \<^verbatim>\<open>del d[key]\<close> raises \<^verbatim>\<open>KeyError\<close> when the key is absent.
\<close>

definition del_item :: "'u session \<Rightarrow> string \<Rightarrow> exn + 'u session" where
  "del_item ss key =
     (case ss key of
        None \<Rightarrow> Inl (Exn KeyError (CHR 0x27 # key @ [CHR 0x27]))
      | Some v \<Rightarrow> Inr (ss(key := None)))"

text \<open>
  \<^verbatim>\<open>sign_out\<close>, lines 75 to 79. The result is the new session state, or the exception
  that left the function.
\<close>

definition sign_out :: "'u session \<Rightarrow> 'w run \<Rightarrow> (exn + 'u session) \<times> 'w run" where
  "sign_out ss s =
     (case (if ss ''user'' \<noteq> None then del_item ss ''user'' else Inr ss) of
        Inl e \<Rightarrow> (Inl e, s)
      | Inr ss1 \<Rightarrow> (Inr ss1, st_success ''You have been signed out.'' s))"

text \<open>The test of line 85 chooses what the page shows.\<close>

datatype view = LoggedOutView | LoggedInView

definition page_view :: "'u session \<Rightarrow> view" where
  "page_view ss = (if ss ''user'' = None then LoggedOutView else LoggedInView)"

text \<open>
  The form handler, lines 100 to 110, for a submitted form. The first component of the
  result says whether \<^verbatim>\<open>st.rerun()\<close> was called. \<^verbatim>\<open>if error:\<close> is Python's truth value of
  the returned error.
\<close>

definition submit_form ::
  "('w, 'u) auth \<Rightarrow> client option \<Rightarrow> string \<Rightarrow> string \<Rightarrow> string \<Rightarrow> 'u session \<Rightarrow> 'w run
     \<Rightarrow> bool \<times> 'u session \<times> 'w run" where
  "submit_form au supabase auth_form_choice email password ss s =
     (if auth_form_choice = ''Sign Up'' then
        (case sign_up au supabase email password ss s of
           ((user, error), ss1, s1) \<Rightarrow>
             (case error of
                Some m \<Rightarrow>
                  if truthy error then (False, ss1, st_error (''Sign-up failed: '' @ m) s1)
                  else (False, ss1, s1)
              | None \<Rightarrow> (False, ss1, s1)))
      else
        (case sign_in au supabase email password ss s of
           ((user, error), ss1, s1) \<Rightarrow>
             (case error of
                Some m \<Rightarrow>
                  if truthy error then (False, ss1, st_error (''Sign-in failed: '' @ m) s1)
                  else (True, ss1, s1)
              | None \<Rightarrow> (True, ss1, s1))))"

subsection \<open>Sequences of authentication actions\<close>

text \<open>
  An action is one call of the three functions; its outcome is read off what the
  function returned: \<^verbatim>\<open>sign_in\<close> and \<^verbatim>\<open>sign_up\<close> succeeded when the returned error is
  \<^verbatim>\<open>None\<close>, \<^verbatim>\<open>sign_out\<close> when it returned. An exception leaving \<^verbatim>\<open>sign_out\<close> would leave
  the session state as it was.
\<close>

datatype auth_action = DoSignUp string string | DoSignIn string string | DoSignOut

datatype outcome =
  SignedUp | SignUpFailed | SignedIn | SignInFailed | SignedOut | SignOutRaised

fun perform ::
  "('w, 'u) auth \<Rightarrow> client option \<Rightarrow> auth_action \<Rightarrow> 'u session \<times> 'w run
     \<Rightarrow> outcome \<times> 'u session \<times> 'w run" where
  "perform au supabase (DoSignUp email password) (ss, s) =
     (case sign_up au supabase email password ss s of
        ((user, error), ss1, s1) \<Rightarrow> (if error = None then SignedUp else SignUpFailed, ss1, s1))"
| "perform au supabase (DoSignIn email password) (ss, s) =
     (case sign_in au supabase email password ss s of
        ((user, error), ss1, s1) \<Rightarrow> (if error = None then SignedIn else SignInFailed, ss1, s1))"
| "perform au supabase DoSignOut (ss, s) =
     (case sign_out ss s of
        (Inr ss1, s1) \<Rightarrow> (SignedOut, ss1, s1)
      | (Inl e, s1) \<Rightarrow> (SignOutRaised, ss, s1))"

text \<open>Running a list of actions in order, collecting the outcomes.\<close>

fun perform_all ::
  "('w, 'u) auth \<Rightarrow> client option \<Rightarrow> auth_action list \<Rightarrow> 'u session \<times> 'w run
     \<Rightarrow> outcome list \<times> 'u session \<times> 'w run" where
  "perform_all au supabase [] st = ([], st)"
| "perform_all au supabase (a # as) st =
     (case perform au supabase a st of
        (out, st1) \<Rightarrow>
          (case perform_all au supabase as st1 of (outs, st2) \<Rightarrow> (out # outs, st2)))"

text \<open>
  Whether, in a history of outcomes, the last of the successful sign-ins and the
  sign-outs is a sign-in; \<open>b\<close> is the answer for the empty history.
\<close>

fun signed_in_last :: "bool \<Rightarrow> outcome list \<Rightarrow> bool" where
  "signed_in_last b [] = b"
| "signed_in_last b (SignedIn # outs) = signed_in_last True outs"
| "signed_in_last b (SignedOut # outs) = signed_in_last False outs"
| "signed_in_last b (out # outs) = signed_in_last b outs"


section \<open>Concrete services and inputs\<close>

text \<open>
  A small world on which the functions can be run: the world is a counter of the
  outside calls made so far, a table of candles is a string, a user is the e-mail
  address. The database rejects every key but \<open>anon\<close> and serves journals only to the
  project \<open>https://demo.supabase.co\<close>; the market-data vendor knows no symbol \<open>NQ\<close>; the
  auth service accepts the password \<open>secret\<close>.
\<close>

definition trade_mes :: row where
  "trade_mes = [''symbol'' \<mapsto> ''MES'', ''pnl'' \<mapsto> ''125.0'']"

definition trade_nq :: row where
  "trade_nq = [''symbol'' \<mapsto> ''NQ'', ''pnl'' \<mapsto> ''-40.0'']"

definition trade_unnamed :: row where
  "trade_unnamed = [''pnl'' \<mapsto> ''10.0'']"

definition journal_mes :: row where
  "journal_mes = [''entry'' \<mapsto> ''held too long'']"

definition sample_trade :: row where
  "sample_trade = [''symbol'' \<mapsto> ''MES'', ''pnl'' \<mapsto> ''1.0'']"

definition sample_journal :: "row \<Rightarrow> row" where
  "sample_journal t = [''entry'' \<mapsto> ''sample'']"

definition demo_services :: "row list \<Rightarrow> (nat, string) services" where
  "demo_services rows =
     \<lparr>fetch_trades = (\<lambda>c w. case c of SupabaseClient url key \<Rightarrow>
          (if key = Some ''anon'' then Inr rows
           else Inl (Exn OtherException ''Invalid API key''), Suc w)),
      fetch_journals = (\<lambda>c w. case c of SupabaseClient url key \<Rightarrow>
          (if url = Some ''https://demo.supabase.co'' then Inr [journal_mes]
           else Inl (Exn OtherException ''relation journals does not exist''), Suc w)),
      get_candlestick_data = (\<lambda>db symbol start_date end_date w.
          (if symbol = ''NQ'' then Inl (Exn OtherException ''symbol not found'')
           else Inr (''candles of '' @ symbol), Suc w)),
      generate_trades = (\<lambda>n w. (replicate n sample_trade, w)),
      generate_journals = (\<lambda>trades w. (map sample_journal trades, w)),
      path_exists = (\<lambda>path w. True),
      read_csv = (\<lambda>path w. ''rows of '' @ path),
      to_datetime_timestamp = (\<lambda>df. df @ '' with timestamps''),
      now = (\<lambda>w. 1700000000000000 + int w)\<rparr>"

definition run0 :: "nat run" where
  "run0 = \<lparr>world = 0, notices = [], calls = []\<rparr>"

definition cfg_live :: config where
  "cfg_live =
     \<lparr>SUPABASE_URL = Some ''https://demo.supabase.co'', SUPABASE_KEY = Some ''anon'',
      TOPSTEP_API_KEY = None, DATABENTO_API_KEY = Some ''db-demo'', OPENAI_API_KEY = None,
      OPENAI_MODEL = Some ''gpt-4'', is_supabase_configured = True,
      is_topstep_configured = False, is_databento_configured = True,
      is_openai_configured = False, validate = [''OPENAI_API_KEY'']\<rparr>"

definition cfg_market_only :: config where
  "cfg_market_only =
     \<lparr>SUPABASE_URL = None, SUPABASE_KEY = None,
      TOPSTEP_API_KEY = None, DATABENTO_API_KEY = Some ''db-demo'', OPENAI_API_KEY = None,
      OPENAI_MODEL = Some ''gpt-4'', is_supabase_configured = False,
      is_topstep_configured = False, is_databento_configured = True,
      is_openai_configured = False,
      validate = [''SUPABASE_URL'', ''SUPABASE_KEY'', ''OPENAI_API_KEY'']\<rparr>"


definition settings_partial :: settings where
  "settings_partial =
     \<lparr>supabase_url = Some ''https://demo.supabase.co'', supabase_key = Some [],
      databento_api_key = Some ''db-demo''\<rparr>"

definition demo_auth :: "(nat, string) auth" where
  "demo_auth =
     \<lparr>auth_sign_up = (\<lambda>c email password w.
          (if password = [] then Inl (Exn OtherException ''Signup requires a valid password'')
           else Inr email, Suc w)),
      auth_sign_in_with_password = (\<lambda>c email password w.
          (if password = ''secret'' then Inr email
           else Inl (Exn OtherException ''Invalid login credentials''), Suc w))\<rparr>"

definition demo_client :: client where
  "demo_client = Client (Some ''https://demo.supabase.co'') (Some ''anon'')"

text \<open>
  Libraries that check their arguments the way the Supabase and Databento packages do:
  a URL must start with \<open>http://\<close> or \<open>https://\<close>, an API key with \<open>db-\<close>.
\<close>

definition demo_libraries :: libraries where
  "demo_libraries =
     \<lparr>create_client = (\<lambda>url key.
          case url of
            None \<Rightarrow> Inl (Exn OtherException ''supabase_url is required'')
          | Some u \<Rightarrow>
              if take 7 u = ''http://'' \<or> take 8 u = ''https://'' then Inr (Client url key)
              else Inl (Exn OtherException ''Invalid URL'')),
      db_Historical = (\<lambda>key.
          case key of
            None \<Rightarrow> Inl (Exn OtherException ''key is required'')
          | Some k \<Rightarrow>
              if take 3 k = ''db-'' then Inr (Historical key)
              else Inl (Exn OtherException ''invalid API key''))\<rparr>"

definition settings_no_scheme :: settings where
  "settings_no_scheme =
     \<lparr>supabase_url = Some ''demo.supabase.co'', supabase_key = Some ''anon'',
      databento_api_key = Some ''db-demo''\<rparr>"

definition settings_demo :: settings where
  "settings_demo =
     \<lparr>supabase_url = Some ''https://demo.supabase.co'', supabase_key = Some ''anon'',
      databento_api_key = Some ''db-demo''\<rparr>"

definition secrets_no_key :: "string \<rightharpoonup> string" where
  "secrets_no_key =
     [''SUPABASE_URL'' \<mapsto> ''https://prod.supabase.co'', ''DATABENTO_API_KEY'' \<mapsto> ''db-prod'']"

definition rows_unnamed :: "row list" where
  "rows_unnamed = [trade_mes, trade_unnamed]"

definition secrets_prod :: "string \<rightharpoonup> string" where
  "secrets_prod =
     [''SUPABASE_URL'' \<mapsto> ''https://prod.supabase.co'', ''SUPABASE_KEY'' \<mapsto> ''prod-key'',
      ''DATABENTO_API_KEY'' \<mapsto> ''db-prod'']"

definition dotenv_local :: "string \<rightharpoonup> string" where
  "dotenv_local =
     [''SUPABASE_URL'' \<mapsto> ''https://local.supabase.co'', ''SUPABASE_KEY'' \<mapsto> ''local-key'']"

definition environ_shell :: "string \<rightharpoonup> string" where
  "environ_shell = [''SUPABASE_KEY'' \<mapsto> ''shell-key'']"

definition settings_prod :: settings where
  "settings_prod =
     \<lparr>supabase_url = Some ''https://prod.supabase.co'', supabase_key = Some ''prod-key'',
      databento_api_key = Some ''db-prod''\<rparr>"

definition settings_local :: settings where
  "settings_local =
     \<lparr>supabase_url = Some ''https://local.supabase.co'', supabase_key = Some ''shell-key'',
      databento_api_key = None\<rparr>"

definition demo_supabase :: supabase_client where
  "demo_supabase = SupabaseClient (Some ''https://demo.supabase.co'') (Some ''anon'')"

definition demo_databento :: databento_client where
  "demo_databento = DatabentoClient (Some ''db-demo'')"

definition demo_rows :: "row list" where
  "demo_rows = [trade_mes, trade_nq, trade_mes]"

definition demo_supabase_no_journals :: supabase_client where
  "demo_supabase_no_journals = SupabaseClient (Some ''https://other.supabase.co'') (Some ''anon'')"

definition no_market_data :: "string market_data" where
  "no_market_data = Map.empty"

definition auth_script :: "auth_action list" where
  "auth_script =
     [DoSignIn ''ada@example.org'' ''guess'', DoSignIn ''ada@example.org'' ''secret'',
      DoSignOut, DoSignUp ''bob@example.org'' ''pw'', DoSignIn ''bob@example.org'' ''secret'']"


section \<open>Client construction\<close>

text \<open>
  C5, as amended. Client construction is guarded by configuration. In \<^verbatim>\<open>app.py\<close>,
  \<^verbatim>\<open>init_clients\<close> returns for each of Supabase, TopStep, Databento and OpenAI a client
  exactly when the service's predicate \<^verbatim>\<open>Config.is_*_configured()\<close> holds, built from the
  configured values, and \<^verbatim>\<open>None\<close> otherwise (its constructors, classes of the repository
  whose sources are not at hand, are taken to return). In \<^verbatim>\<open>streamlit_app.py\<close>,
  \<^verbatim>\<open>init_supabase_client\<close> returns \<^verbatim>\<open>None\<close> exactly when the URL or the key is missing or
  empty; when both are set it returns the client \<^verbatim>\<open>create_client\<close> constructs, if
  \<^verbatim>\<open>create_client\<close> returns, and otherwise the exception of \<^verbatim>\<open>create_client\<close> leaves the
  function. \<^verbatim>\<open>init_databento_client\<close> does the same with the API key and \<^verbatim>\<open>db.Historical\<close>.
\<close>

theorem C5_clients_guarded:
  "init_clients cfg = (s, t, d, n) \<Longrightarrow>
     ((s \<noteq> None) = is_supabase_configured cfg) \<and>
     ((t \<noteq> None) = is_topstep_configured cfg) \<and>
     ((d \<noteq> None) = is_databento_configured cfg) \<and>
     ((n \<noteq> None) = is_openai_configured cfg) \<and>
     (is_supabase_configured cfg \<longrightarrow>
        s = Some (SupabaseClient (SUPABASE_URL cfg) (SUPABASE_KEY cfg))) \<and>
     (is_topstep_configured cfg \<longrightarrow> t = Some (TopStepClient (TOPSTEP_API_KEY cfg))) \<and>
     (is_databento_configured cfg \<longrightarrow>
        d = Some (DatabentoClient (DATABENTO_API_KEY cfg))) \<and>
     (is_openai_configured cfg \<longrightarrow>
        n = Some (NLPProcessor (OPENAI_API_KEY cfg) (OPENAI_MODEL cfg))) \<and>
     ((init_supabase_client lib st = Inr None) =
        (\<not> (truthy (supabase_url st) \<and> truthy (supabase_key st)))) \<and>
     ((init_supabase_client lib st = Inr (Some c)) =
        (truthy (supabase_url st) \<and> truthy (supabase_key st) \<and>
         create_client lib (supabase_url st) (supabase_key st) = Inr c)) \<and>
     ((init_supabase_client lib st = Inl e) =
        (truthy (supabase_url st) \<and> truthy (supabase_key st) \<and>
         create_client lib (supabase_url st) (supabase_key st) = Inl e)) \<and>
     ((init_databento_client lib st = Inr None) = (\<not> truthy (databento_api_key st))) \<and>
     ((init_databento_client lib st = Inr (Some h)) =
        (truthy (databento_api_key st) \<and> db_Historical lib (databento_api_key st) = Inr h)) \<and>
     ((init_databento_client lib st = Inl e) =
        (truthy (databento_api_key st) \<and> db_Historical lib (databento_api_key st) = Inl e))"
  by (auto simp: init_clients_def init_supabase_client_def init_databento_client_def
           split: if_splits sum.splits)

theorem C5_clients_guarded_witness:
  "init_clients cfg_live =
     (Some (SupabaseClient (Some ''https://demo.supabase.co'') (Some ''anon'')), None,
      Some (DatabentoClient (Some ''db-demo'')), None) \<and>
   init_supabase_client demo_libraries settings_partial = Inr None \<and>
   init_supabase_client demo_libraries settings_demo = Inr (Some demo_client) \<and>
   init_databento_client demo_libraries settings_partial = Inr (Some (Historical (Some ''db-demo'')))"
proof -
  have run: "init_clients cfg_live =
     (Some (SupabaseClient (Some ''https://demo.supabase.co'') (Some ''anon'')), None,
      Some (DatabentoClient (Some ''db-demo'')), None)"
    by (simp add: init_clients_def cfg_live_def)
  have mk: "create_client demo_libraries (supabase_url settings_demo) (supabase_key settings_demo)
      = Inr demo_client"
    by (simp add: demo_libraries_def settings_demo_def demo_client_def)
  have hk: "db_Historical demo_libraries (databento_api_key settings_partial)
      = Inr (Historical (Some ''db-demo''))"
    by (simp add: demo_libraries_def settings_partial_def)
  have tr: "truthy (supabase_url settings_demo) \<and> truthy (supabase_key settings_demo)"
    "\<not> (truthy (supabase_url settings_partial) \<and> truthy (supabase_key settings_partial))"
    "truthy (databento_api_key settings_partial)"
    by (simp_all add: settings_demo_def settings_partial_def)
  from C5_clients_guarded [OF run, of demo_libraries settings_partial _ _ "Historical (Some ''db-demo'')"]
    tr hk
  have A: "init_supabase_client demo_libraries settings_partial = Inr None"
    and B: "init_databento_client demo_libraries settings_partial
        = Inr (Some (Historical (Some ''db-demo'')))"
    by blast+
  from C5_clients_guarded [OF run, of demo_libraries settings_demo demo_client] tr mk
  have C: "init_supabase_client demo_libraries settings_demo = Inr (Some demo_client)"
    by blast
  from run A B C show ?thesis by simp
qed

text \<open>
  The claim as written, that a client is returned whenever the required values are
  present, fails when the library refuses them: with a URL that has no scheme and a key,
  both non-empty, \<^verbatim>\<open>create_client\<close> raises and \<^verbatim>\<open>init_supabase_client\<close> returns nothing.
\<close>

theorem C5_constructor_raises_counterexample:
  "truthy (supabase_url settings_no_scheme) \<and> truthy (supabase_key settings_no_scheme) \<and>
   init_supabase_client demo_libraries settings_no_scheme = Inl (Exn OtherException ''Invalid URL'')"
  by (simp add: init_supabase_client_def demo_libraries_def settings_no_scheme_def)


section \<open>Authentication in streamlit\_app.py\<close>

lemma sign_out_returns:
  "sign_out ss s = (Inr (ss(''user'' := None)), st_success ''You have been signed out.'' s)"
proof (cases "ss ''user''")
  case None
  then have "ss(''user'' := None) = ss" by (simp add: fun_upd_idem)
  with None show ?thesis by (simp add: sign_out_def)
next
  case (Some u)
  then show ?thesis by (simp add: sign_out_def del_item_def)
qed

text \<open>
  C10. \<^verbatim>\<open>sign_out\<close> is total and idempotent: for every session state it returns (the
  \<^verbatim>\<open>del\<close> is guarded, so no \<^verbatim>\<open>KeyError\<close> leaves it, also when no user is signed in), the
  resulting session state has no key \<open>user\<close> and keeps every other key, and a second
  \<^verbatim>\<open>sign_out\<close> returns the same session state as the first.
\<close>

theorem C10_sign_out_total_idempotent:
  "\<exists>ss'. fst (sign_out ss s) = Inr ss' \<and> ss' ''user'' = None \<and>
         (\<forall>k. k \<noteq> ''user'' \<longrightarrow> ss' k = ss k) \<and>
         (ss ''user'' = None \<longrightarrow> ss' = ss) \<and>
         fst (sign_out ss' (snd (sign_out ss s))) = Inr ss'"
  by (auto simp: sign_out_returns fun_upd_idem)

theorem C10_sign_out_witness:
  "fst (sign_out (Map.empty :: string session) run0) = Inr Map.empty \<and>
   fst (sign_out [''user'' \<mapsto> ''ada@example.org''] run0) = Inr Map.empty \<and>
   notices (snd (sign_out [''user'' \<mapsto> ''ada@example.org''] run0))
     = [Success ''You have been signed out.'']"
  using C10_sign_out_total_idempotent [of "[''user'' \<mapsto> ''ada@example.org'']" run0]
        C10_sign_out_total_idempotent [of "Map.empty :: string session" run0]
  by (simp add: sign_out_returns st_success_def run0_def)

lemma sign_up_session: "fst (snd (sign_up au supabase email password ss s)) = ss"
  by (simp add: sign_up_def split: option.splits prod.splits sum.splits)

text \<open>
  C8. A successful \<^verbatim>\<open>sign_up\<close> does not sign the user in: for every e-mail and password
  \<^verbatim>\<open>sign_up\<close> returns the session state it was given, also when the auth service returns a
  user; the form handler for "Sign Up" leaves the session state alone and asks for no
  rerun, so a page that showed the logged-out view still shows it.
\<close>

theorem C8_sign_up_keeps_session:
  "fst (snd (sign_up au supabase email password ss s)) = ss \<and>
   page_view (fst (snd (sign_up au supabase email password ss s))) = page_view ss \<and>
   (auth_sign_up au c email password (world s) = (Inr u, w') \<longrightarrow>
      fst (sign_up au (Some c) email password ss s) = (Some u, None) \<and>
      fst (snd (sign_up au (Some c) email password ss s)) = ss) \<and>
   fst (snd (submit_form au supabase ''Sign Up'' email password ss s)) = ss \<and>
   \<not> fst (submit_form au supabase ''Sign Up'' email password ss s) \<and>
   (page_view ss = LoggedOutView \<longrightarrow>
      page_view (fst (snd (submit_form au supabase ''Sign Up'' email password ss s)))
        = LoggedOutView)"
proof -
  have a: "fst (snd (submit_form au supabase ''Sign Up'' email password ss s)) = ss"
    using sign_up_session [of au supabase email password ss s]
    by (auto simp: submit_form_def split: prod.splits option.splits)
  have b: "\<not> fst (submit_form au supabase ''Sign Up'' email password ss s)"
    by (simp add: submit_form_def split: prod.splits option.splits)
  have c: "auth_sign_up au c email password (world s) = (Inr u, w') \<longrightarrow>
      fst (sign_up au (Some c) email password ss s) = (Some u, None)"
    by (simp add: sign_up_def external_def)
  from a b c show ?thesis by (simp add: sign_up_session)
qed

theorem C8_sign_up_witness:
  "fst (sign_up demo_auth (Some demo_client) ''ada@example.org'' ''secret'' Map.empty run0)
     = (Some ''ada@example.org'', None) \<and>
   fst (snd (sign_up demo_auth (Some demo_client) ''ada@example.org'' ''secret'' Map.empty run0))
     = Map.empty \<and>
   page_view (fst (snd (submit_form demo_auth (Some demo_client) ''Sign Up''
       ''ada@example.org'' ''secret'' Map.empty run0))) = LoggedOutView"
proof -
  have call: "auth_sign_up demo_auth demo_client ''ada@example.org'' ''secret'' (world run0)
      = (Inr ''ada@example.org'', Suc 0)"
    by (simp add: demo_auth_def run0_def)
  have out: "page_view (Map.empty :: string session) = LoggedOutView"
    by (simp add: page_view_def)
  from C8_sign_up_keeps_session [of demo_auth "Some demo_client" "''ada@example.org''"
      "''secret''" Map.empty run0 demo_client "''ada@example.org''" "Suc 0"] call out
  show ?thesis by simp
qed


lemma sign_in_success:
  "auth_sign_in_with_password au c email password (world s) = (Inr u, w') \<Longrightarrow>
     sign_in au (Some c) email password ss s =
       ((Some u, None), ss(''user'' \<mapsto> u),
        st_success ''Signed in successfully!''
          (s\<lparr>world := w', calls := calls s @ [AuthSignInWithPassword email password]\<rparr>))"
  by (simp add: sign_in_def external_def)

lemma sign_in_raises:
  "auth_sign_in_with_password au c email password (world s) = (Inl e, w') \<Longrightarrow>
     sign_in au (Some c) email password ss s =
       ((None, Some (str e)), ss,
        s\<lparr>world := w', calls := calls s @ [AuthSignInWithPassword email password]\<rparr>)"
  by (simp add: sign_in_def external_def)

lemma sign_in_no_client:
  "sign_in au None email password ss s =
     ((None, Some ''Supabase client not initialized.''), ss,
      st_error ''Supabase client is not initialized. Check your API keys.'' s)"
  by (simp add: sign_in_def)

lemma sign_in_cases:
  "(snd (fst (sign_in au supabase email password ss s)) = None \<and>
      (\<exists>u. fst (fst (sign_in au supabase email password ss s)) = Some u \<and>
           fst (snd (sign_in au supabase email password ss s)) = ss(''user'' \<mapsto> u))) \<or>
   (snd (fst (sign_in au supabase email password ss s)) \<noteq> None \<and>
      fst (snd (sign_in au supabase email password ss s)) = ss)"
  by (auto simp: sign_in_def split: option.splits prod.splits sum.splits)

lemma signed_in_last_step:
  "signed_in_last b (out # outs) = signed_in_last (signed_in_last b [out]) outs"
  by (cases out) simp_all

lemma perform_auth:
  "perform au supabase a (ss, s) = (out, ss', s') \<Longrightarrow>
     (ss' ''user'' \<noteq> None) = signed_in_last (ss ''user'' \<noteq> None) [out]"
proof (cases a)
  case (DoSignUp email password)
  assume "perform au supabase a (ss, s) = (out, ss', s')"
  with DoSignUp sign_up_session [of au supabase email password ss s]
  show ?thesis by (auto split: prod.splits if_splits)
next
  case (DoSignIn email password)
  assume "perform au supabase a (ss, s) = (out, ss', s')"
  with DoSignIn sign_in_cases [of au supabase email password ss s]
  show ?thesis by (auto split: prod.splits if_splits)
next
  case DoSignOut
  assume "perform au supabase a (ss, s) = (out, ss', s')"
  with DoSignOut show ?thesis by (auto simp: sign_out_returns)
qed

lemma perform_all_auth:
  "perform_all au supabase acts (ss, s) = (outs, ss', s') \<Longrightarrow>
     (ss' ''user'' \<noteq> None) = signed_in_last (ss ''user'' \<noteq> None) outs"
proof (induction acts arbitrary: ss s outs ss' s')
  case Nil
  then show ?case by simp
next
  case (Cons a acts)
  obtain out ss1 s1 where p: "perform au supabase a (ss, s) = (out, ss1, s1)"
    by (metis prod_cases3)
  obtain outs1 ss2 s2 where q: "perform_all au supabase acts (ss1, s1) = (outs1, ss2, s2)"
    by (metis prod_cases3)
  from Cons.prems p q have e: "outs = out # outs1" "ss' = ss2" by simp_all
  from Cons.IH [OF q] perform_auth [OF p] e show ?case
    by (simp add: signed_in_last_step [of _ out outs1])
qed

lemma signed_in_last_snoc:
  "signed_in_last b (outs @ [out]) =
     (if out = SignedIn then True else if out = SignedOut then False else signed_in_last b outs)"
  by (induction b outs rule: signed_in_last.induct) (cases out; simp)+

lemma signed_in_last_iff:
  "signed_in_last False outs =
     (\<exists>pre post. outs = pre @ SignedIn # post \<and> SignedOut \<notin> set post)"
proof (induction outs rule: rev_induct)
  case Nil
  then show ?case by simp
next
  case (snoc out outs)
  show ?case
  proof (cases "out = SignedIn")
    case True
    have "outs @ [out] = outs @ SignedIn # [] \<and> SignedOut \<notin> set []" using True by simp
    then have "\<exists>pre post. outs @ [out] = pre @ SignedIn # post \<and> SignedOut \<notin> set post"
      by blast
    with True show ?thesis by (simp add: signed_in_last_snoc)
  next
    case notin: False
    show ?thesis
    proof (cases "out = SignedOut")
      case True
      have "\<not> (\<exists>pre post. outs @ [out] = pre @ SignedIn # post \<and> SignedOut \<notin> set post)"
      proof
        assume "\<exists>pre post. outs @ [out] = pre @ SignedIn # post \<and> SignedOut \<notin> set post"
        then obtain pre post where e: "outs @ [out] = pre @ SignedIn # post"
          and n: "SignedOut \<notin> set post" by blast
        from e have "last (outs @ [out]) = last (pre @ SignedIn # post)" by simp
        then have "out = last (SignedIn # post)" by simp
        with True n show False by (cases post rule: rev_cases) auto
      qed
      with True show ?thesis by (simp add: signed_in_last_snoc)
    next
      case False
      have "(\<exists>pre post. outs @ [out] = pre @ SignedIn # post \<and> SignedOut \<notin> set post) =
            (\<exists>pre post. outs = pre @ SignedIn # post \<and> SignedOut \<notin> set post)"
      proof
        assume "\<exists>pre post. outs @ [out] = pre @ SignedIn # post \<and> SignedOut \<notin> set post"
        then obtain pre post where e: "outs @ [out] = pre @ SignedIn # post"
          and n: "SignedOut \<notin> set post" by blast
        from e notin obtain post' where p: "post = post' @ [out]"
          by (cases post rule: rev_cases) auto
        with e have "outs = pre @ SignedIn # post'" by simp
        moreover from n p have "SignedOut \<notin> set post'" by simp
        ultimately show "\<exists>pre post. outs = pre @ SignedIn # post \<and> SignedOut \<notin> set post"
          by blast
      next
        assume "\<exists>pre post. outs = pre @ SignedIn # post \<and> SignedOut \<notin> set post"
        then obtain pre post where e: "outs = pre @ SignedIn # post"
          and n: "SignedOut \<notin> set post" by blast
        from e have "outs @ [out] = pre @ SignedIn # (post @ [out])" by simp
        moreover from n False have "SignedOut \<notin> set (post @ [out])" by simp
        ultimately show "\<exists>pre post. outs @ [out] = pre @ SignedIn # post \<and> SignedOut \<notin> set post"
          by blast
      qed
      with notin False snoc.IH show ?thesis by (simp add: signed_in_last_snoc)
    qed
  qed
qed

text \<open>
  C6. The authentication state machine of \<^verbatim>\<open>streamlit_app.py\<close>: a successful \<^verbatim>\<open>sign_in\<close>
  stores the returned user under the key \<open>user\<close>; \<^verbatim>\<open>sign_out\<close> removes that key; a failed
  \<^verbatim>\<open>sign_in\<close> (the auth service raised, or the client is not initialised) returns an error
  and leaves the session state unchanged; hence after any sequence of sign-ups,
  sign-ins and sign-outs from a session without the key, \<open>user\<close> is present exactly when
  some successful sign-in has no sign-out after it.
\<close>

theorem C6_auth_state_machine:
  "(auth_sign_in_with_password au c email password (world s) = (Inr u, w') \<longrightarrow>
      fst (sign_in au (Some c) email password ss s) = (Some u, None) \<and>
      fst (snd (sign_in au (Some c) email password ss s)) = ss(''user'' \<mapsto> u)) \<and>
   (\<exists>ss1. fst (sign_out ss s) = Inr ss1 \<and> ss1 ''user'' = None) \<and>
   (auth_sign_in_with_password au c email password (world s) = (Inl e, w') \<longrightarrow>
      fst (sign_in au (Some c) email password ss s) = (None, Some (str e)) \<and>
      fst (snd (sign_in au (Some c) email password ss s)) = ss) \<and>
   fst (sign_in au None email password ss s) = (None, Some ''Supabase client not initialized.'') \<and>
   fst (snd (sign_in au None email password ss s)) = ss \<and>
   (snd (fst (sign_in au supabase email password ss s)) \<noteq> None \<longrightarrow>
      fst (snd (sign_in au supabase email password ss s)) = ss) \<and>
   (ss ''user'' = None \<longrightarrow>
      (fst (snd (perform_all au supabase acts (ss, s))) ''user'' \<noteq> None) =
      (\<exists>pre post. fst (perform_all au supabase acts (ss, s)) = pre @ SignedIn # post \<and>
                  SignedOut \<notin> set post))"
proof -
  have inv: "ss ''user'' = None \<longrightarrow>
      (fst (snd (perform_all au supabase acts (ss, s))) ''user'' \<noteq> None) =
      (\<exists>pre post. fst (perform_all au supabase acts (ss, s)) = pre @ SignedIn # post \<and>
                  SignedOut \<notin> set post)"
  proof
    assume fresh: "ss ''user'' = None"
    obtain outs ss2 s2 where q: "perform_all au supabase acts (ss, s) = (outs, ss2, s2)"
      by (metis prod_cases3)
    from perform_all_auth [OF q] fresh have "(ss2 ''user'' \<noteq> None) = signed_in_last False outs"
      by simp
    with q show "(fst (snd (perform_all au supabase acts (ss, s))) ''user'' \<noteq> None) =
      (\<exists>pre post. fst (perform_all au supabase acts (ss, s)) = pre @ SignedIn # post \<and>
                  SignedOut \<notin> set post)"
      by (simp add: signed_in_last_iff)
  qed
  have failed: "snd (fst (sign_in au supabase email password ss s)) \<noteq> None \<longrightarrow>
      fst (snd (sign_in au supabase email password ss s)) = ss"
    using sign_in_cases [of au supabase email password ss s] by auto
  have out: "\<exists>ss1. fst (sign_out ss s) = Inr ss1 \<and> ss1 ''user'' = None"
    by (simp add: sign_out_returns)
  from inv failed out show ?thesis
    by (simp add: sign_in_success sign_in_raises sign_in_no_client)
qed

theorem C6_auth_state_machine_witness:
  "fst (perform_all demo_auth (Some demo_client) auth_script (Map.empty, run0))
     = [SignInFailed, SignedIn, SignedOut, SignedUp, SignedIn] \<and>
   fst (snd (perform_all demo_auth (Some demo_client) auth_script (Map.empty, run0))) ''user''
     = Some ''bob@example.org'' \<and>
   fst (snd (perform_all demo_auth (Some demo_client) (take 3 auth_script) (Map.empty, run0))) ''user''
     = None"
proof -
  have run: "fst (perform_all demo_auth (Some demo_client) auth_script (Map.empty, run0))
     = [SignInFailed, SignedIn, SignedOut, SignedUp, SignedIn]"
    by (simp add: auth_script_def sign_in_def sign_up_def sign_out_returns external_def
          demo_auth_def run0_def st_success_def)
  have split: "[SignInFailed, SignedIn, SignedOut, SignedUp, SignedIn]
      = [SignInFailed, SignedIn, SignedOut, SignedUp] @ SignedIn # [] \<and> SignedOut \<notin> set []"
    by simp
  have fresh: "(Map.empty :: string session) ''user'' = None" by simp
  have ex: "\<exists>pre post. [SignInFailed, SignedIn, SignedOut, SignedUp, SignedIn]
      = pre @ SignedIn # post \<and> SignedOut \<notin> set post"
    using split by blast
  from C6_auth_state_machine [of demo_auth demo_client "''ada@example.org''" "''secret''" run0
      "''ada@example.org''" "Suc 0" Map.empty "Exn OtherException []" "Some demo_client" auth_script]
  have "(fst (snd (perform_all demo_auth (Some demo_client) auth_script (Map.empty, run0))) ''user''
     \<noteq> None) = (\<exists>pre post. fst (perform_all demo_auth (Some demo_client) auth_script (Map.empty, run0))
        = pre @ SignedIn # post \<and> SignedOut \<notin> set post)"
    using fresh by blast
  with run ex
  have "fst (snd (perform_all demo_auth (Some demo_client) auth_script (Map.empty, run0))) ''user''
     \<noteq> None" by simp
  then show ?thesis using run
    by (simp add: auth_script_def sign_in_def sign_up_def sign_out_returns external_def
          demo_auth_def run0_def st_success_def)
qed


section \<open>Where the settings come from\<close>

text \<open>
  C7, as amended. In \<^verbatim>\<open>streamlit_app.py\<close> the Supabase URL, the Supabase key and the
  Databento API key come from the environment variables exactly when reading the
  secrets raises \<^verbatim>\<open>FileNotFoundError\<close>, that is when there is no Streamlit secrets file or
  Streamlit cannot parse it: then each is the variable's value after \<^verbatim>\<open>load_dotenv()\<close>,
  which takes a variable from the \<^verbatim>\<open>.env\<close> file unless the process environment already
  sets it. When a secrets file holds the three keys, the values are the secrets,
  whatever the environment says. When a secrets file parses but lacks one of the keys,
  the \<^verbatim>\<open>KeyError\<close> is not caught: no value is taken from the environment and the
  exception leaves the script.
\<close>

theorem C7_settings_source:
  "startup_settings NoSecretsFile dotenv environ =
     Inr \<lparr>supabase_url = load_dotenv dotenv environ ''SUPABASE_URL'',
          supabase_key = load_dotenv dotenv environ ''SUPABASE_KEY'',
          databento_api_key = load_dotenv dotenv environ ''DATABENTO_API_KEY''\<rparr> \<and>
   startup_settings UnparsableSecretsFile dotenv environ =
     Inr \<lparr>supabase_url = load_dotenv dotenv environ ''SUPABASE_URL'',
          supabase_key = load_dotenv dotenv environ ''SUPABASE_KEY'',
          databento_api_key = load_dotenv dotenv environ ''DATABENTO_API_KEY''\<rparr> \<and>
   load_dotenv dotenv environ k = (case environ k of Some v \<Rightarrow> Some v | None \<Rightarrow> dotenv k) \<and>
   (m ''SUPABASE_URL'' = Some url \<and> m ''SUPABASE_KEY'' = Some key \<and>
    m ''DATABENTO_API_KEY'' = Some dkey \<longrightarrow>
      startup_settings (SecretsFile m) dotenv environ =
        Inr \<lparr>supabase_url = Some url, supabase_key = Some key, databento_api_key = Some dkey\<rparr>) \<and>
   (m ''SUPABASE_URL'' = None \<or> m ''SUPABASE_KEY'' = None \<or> m ''DATABENTO_API_KEY'' = None \<longrightarrow>
      (\<exists>missing. startup_settings (SecretsFile m) dotenv environ
          = Inl (Exn KeyError (CHR 0x27 # missing @ [CHR 0x27])) \<and> m missing = None)) \<and>
   (startup_settings secrets dotenv environ = Inr cfg \<longrightarrow>
      (case secrets of
         SecretsFile f \<Rightarrow>
           supabase_url cfg = f ''SUPABASE_URL'' \<and> supabase_key cfg = f ''SUPABASE_KEY'' \<and>
           databento_api_key cfg = f ''DATABENTO_API_KEY'' \<and>
           f ''SUPABASE_URL'' \<noteq> None \<and> f ''SUPABASE_KEY'' \<noteq> None \<and>
           f ''DATABENTO_API_KEY'' \<noteq> None
       | NoSecretsFile \<Rightarrow>
           cfg = \<lparr>supabase_url = load_dotenv dotenv environ ''SUPABASE_URL'',
                  supabase_key = load_dotenv dotenv environ ''SUPABASE_KEY'',
                  databento_api_key = load_dotenv dotenv environ ''DATABENTO_API_KEY''\<rparr>
       | UnparsableSecretsFile \<Rightarrow>
           cfg = \<lparr>supabase_url = load_dotenv dotenv environ ''SUPABASE_URL'',
                  supabase_key = load_dotenv dotenv environ ''SUPABASE_KEY'',
                  databento_api_key = load_dotenv dotenv environ ''DATABENTO_API_KEY''\<rparr>))"
  by (cases secrets)
     (auto simp: startup_settings_def read_settings_def st_secrets_def load_dotenv_def map_add_def
           split: option.splits)

theorem C7_settings_source_witness:
  "startup_settings NoSecretsFile dotenv_local environ_shell = Inr settings_local \<and>
   startup_settings (SecretsFile secrets_prod) dotenv_local environ_shell = Inr settings_prod \<and>
   startup_settings (SecretsFile secrets_no_key) dotenv_local environ_shell
     = Inl (Exn KeyError (CHR 0x27 # ''SUPABASE_KEY'' @ [CHR 0x27]))"
proof -
  have keys: "secrets_prod ''SUPABASE_URL'' = Some ''https://prod.supabase.co'' \<and>
      secrets_prod ''SUPABASE_KEY'' = Some ''prod-key'' \<and>
      secrets_prod ''DATABENTO_API_KEY'' = Some ''db-prod''"
    by (simp add: secrets_prod_def)
  from C7_settings_source [of dotenv_local environ_shell "''SUPABASE_KEY''" secrets_prod
      "''https://prod.supabase.co''" "''prod-key''" "''db-prod''" NoSecretsFile settings_local]
    keys
  have A: "startup_settings NoSecretsFile dotenv_local environ_shell = Inr settings_local"
    and B: "startup_settings (SecretsFile secrets_prod) dotenv_local environ_shell
              = Inr settings_prod"
    by (simp_all add: settings_local_def settings_prod_def load_dotenv_def map_add_def
          dotenv_local_def environ_shell_def)
  have C: "startup_settings (SecretsFile secrets_no_key) dotenv_local environ_shell
     = Inl (Exn KeyError (CHR 0x27 # ''SUPABASE_KEY'' @ [CHR 0x27]))"
    by (simp add: startup_settings_def read_settings_def st_secrets_def secrets_no_key_def)
  from A B C show ?thesis by simp
qed

text \<open>
  The claim as written, that the value used is always the environment's, fails when a
  secrets file is present: the URL used is the secret, not the variable.
\<close>

theorem C7_environment_only_counterexample:
  "startup_settings (SecretsFile secrets_prod) dotenv_local environ_shell = Inr settings_prod \<and>
   supabase_url settings_prod = Some ''https://prod.supabase.co'' \<and>
   load_dotenv dotenv_local environ_shell ''SUPABASE_URL'' = Some ''https://local.supabase.co'' \<and>
   supabase_url settings_prod \<noteq> load_dotenv dotenv_local environ_shell ''SUPABASE_URL''"
  by (simp add: startup_settings_def read_settings_def st_secrets_def load_dotenv_def map_add_def
        secrets_prod_def settings_prod_def dotenv_local_def environ_shell_def)


section \<open>The live branch of load\_data\<close>

lemma external_run:
  "external c f s = (r, s1) \<Longrightarrow>
     r = fst (f (world s)) \<and> s1 = s\<lparr>world := snd (f (world s)), calls := calls s @ [c]\<rparr>"
  by (auto simp: external_def split: prod.splits)

lemma calls_since_append: "calls s' = calls s @ cs \<Longrightarrow> calls_since s s' = cs"
  by (simp add: calls_since_def)

lemma candle_symbols_append:
  "candle_symbols (xs @ ys) = candle_symbols xs @ candle_symbols ys"
  by (induction xs rule: candle_symbols.induct) simp_all

lemma candle_trace_symbols: "candle_symbols (candle_trace sv db syms w) = syms"
  by (induction syms arbitrary: w) simp_all

lemma candle_trace_window: "list_all thirty_day_window (candle_trace sv db syms w)"
  by (induction syms arbitrary: w) simp_all

lemma symbol_column_Inr:
  "symbol_column trades = Inr vs \<Longrightarrow>
     vs = trade_symbols trades \<and> (\<forall>t\<in>set trades. t ''symbol'' \<noteq> None)"
  by (induction trades arbitrary: vs) (auto split: option.splits sum.splits)

lemma symbol_column_Inl:
  "symbol_column trades = Inl e \<Longrightarrow>
     e = Exn KeyError (CHR 0x27 # ''symbol'' @ [CHR 0x27]) \<and> (\<exists>t\<in>set trades. t ''symbol'' = None)"
  by (induction trades) (auto split: option.splits sum.splits)

lemma symbol_column_total:
  "\<forall>t\<in>set trades. t ''symbol'' \<noteq> None \<Longrightarrow> symbol_column trades = Inr (trade_symbols trades)"
  by (induction trades) auto

text \<open>What the database part of the live branch does to the run state.\<close>

lemma load_supabase_run:
  "load_supabase sv sc s = (d, s1) \<Longrightarrow>
     (\<exists>cs. calls s1 = calls s @ cs \<and> candle_symbols cs = [] \<and> list_all thirty_day_window cs) \<and>
     (\<exists>ns. notices s1 = notices s @ ns)"
  by (auto simp: load_supabase_def st_warning_def st_error_def st_success_def
           dest!: external_run split: option.splits sum.splits prod.splits)

lemma fetch_candles_run:
  "fetch_candles sv db syms md s = (md', s') \<Longrightarrow>
     calls s' = calls s @ candle_trace sv db syms (world s) \<and>
     dom md' \<subseteq> dom md \<union> set syms \<and> (\<exists>ns. notices s' = notices s @ ns)"
proof (induction syms arbitrary: md s)
  case Nil
  then show ?case by simp
next
  case (Cons symbol rest)
  let ?en = "now sv (world s)"
  let ?st = "?en - timedelta_days 30"
  obtain r s1 where ext: "external (GetCandlestickData symbol ?st ?en)
      (get_candlestick_data sv db symbol ?st ?en) s = (r, s1)"
    by (metis surj_pair)
  from external_run [OF ext]
  have s1: "world s1 = snd (get_candlestick_data sv db symbol ?st ?en (world s))"
      "calls s1 = calls s @ [GetCandlestickData symbol ?st ?en]" "notices s1 = notices s"
    by simp_all
  show ?case
  proof (cases r)
    case (Inl e)
    let ?s2 = "st_error (''Error fetching market data for '' @ symbol @ '' from Databento: '' @ str e) s1"
    from Cons.prems ext Inl have "fetch_candles sv db rest md ?s2 = (md', s')"
      by (simp add: Let_def)
    from Cons.IH [OF this] s1 show ?thesis
      by (auto simp: st_error_def)
  next
    case (Inr df)
    from Cons.prems ext Inr have "fetch_candles sv db rest (md(symbol \<mapsto> df)) s1 = (md', s')"
      by (simp add: Let_def)
    from Cons.IH [OF this] s1 show ?thesis
      by auto
  qed
qed

lemma load_market_none: "load_market sv None trades s = (Inr Map.empty, s)"
  by (simp add: load_market_def)

lemma load_market_no_trades: "load_market sv dc [] s = (Inr Map.empty, s)"
  by (simp add: load_market_def split: option.splits)

lemma load_market_keyerror:
  "load_market sv dc trades s = (Inl e, s') \<Longrightarrow>
     e = Exn KeyError (CHR 0x27 # ''symbol'' @ [CHR 0x27]) \<and> s' = s \<and> dc \<noteq> None \<and>
     (\<exists>t\<in>set trades. t ''symbol'' = None)"
  by (auto simp: load_market_def dest: symbol_column_Inl
           split: option.splits if_splits sum.splits prod.splits)

lemma load_market_returns:
  "\<forall>t\<in>set trades. t ''symbol'' \<noteq> None \<Longrightarrow>
     \<exists>md s'. load_market sv (Some db) trades s = (Inr md, s') \<and>
       calls s' = calls s @ candle_trace sv db (remdups (trade_symbols trades)) (world s) \<and>
       dom md \<subseteq> set (trade_symbols trades) \<and> (\<exists>ns. notices s' = notices s @ ns)"
proof (cases "trades = []")
  case True
  then show ?thesis by (simp add: load_market_def)
next
  case False
  assume wf: "\<forall>t\<in>set trades. t ''symbol'' \<noteq> None"
  obtain md s' where f: "fetch_candles sv db (remdups (trade_symbols trades)) Map.empty s = (md, s')"
    by (metis surj_pair)
  from False f symbol_column_total [OF wf]
  have "load_market sv (Some db) trades s = (Inr md, s')"
    by (simp add: load_market_def)
  with fetch_candles_run [OF f] show ?thesis by auto
qed

lemma load_market_dom:
  "load_market sv dc trades s = (Inr md, s') \<Longrightarrow>
     dom md \<subseteq> set (trade_symbols trades) \<and> (\<exists>ns. notices s' = notices s @ ns) \<and>
     (\<exists>cs. calls s' = calls s @ cs \<and> (candle_symbols cs \<noteq> [] \<longrightarrow> dc \<noteq> None \<and> trades \<noteq> []))"
proof (cases dc)
  case None
  assume "load_market sv dc trades s = (Inr md, s')"
  with None show ?thesis by (auto simp: load_market_def)
next
  case (Some db)
  assume r: "load_market sv dc trades s = (Inr md, s')"
  show ?thesis
  proof (cases "trades = []")
    case True
    with r show ?thesis by (auto simp: load_market_no_trades)
  next
    case False
    with r Some obtain vs where sc: "symbol_column trades = Inr vs"
      by (auto simp: load_market_def split: sum.splits)
    from symbol_column_Inr [OF sc] have "\<forall>t\<in>set trades. t ''symbol'' \<noteq> None" by simp
    from load_market_returns [OF this, of sv db s] r Some False show ?thesis by auto
  qed
qed


lemma candle_outcomes_symbols: "map fst (candle_outcomes sv db syms w) = syms"
  by (induction syms arbitrary: w) simp_all

lemma fetch_candles_store:
  "fetch_candles sv db syms md s = (md', s') \<Longrightarrow> distinct syms \<Longrightarrow>
     (\<forall>v. md' v = (case map_of (candle_outcomes sv db syms (world s)) v of
                     Some (Inr df) \<Rightarrow> Some df | Some (Inl e) \<Rightarrow> md v | None \<Rightarrow> md v)) \<and>
     notices s' = notices s @ candle_errors (candle_outcomes sv db syms (world s))"
proof (induction syms arbitrary: md s)
  case Nil
  then show ?case by simp
next
  case (Cons symbol rest)
  let ?en = "now sv (world s)"
  let ?st = "?en - timedelta_days 30"
  let ?call = "get_candlestick_data sv db symbol ?st ?en (world s)"
  obtain r s1 where ext: "external (GetCandlestickData symbol ?st ?en)
      (get_candlestick_data sv db symbol ?st ?en) s = (r, s1)"
    by (metis surj_pair)
  from external_run [OF ext]
  have s1: "world s1 = snd ?call" "notices s1 = notices s" and r: "r = fst ?call"
    by simp_all
  from Cons.prems have d: "distinct rest" and fresh: "symbol \<notin> set rest" by simp_all
  have none: "map_of (candle_outcomes sv db rest (snd ?call)) symbol = None"
    using fresh candle_outcomes_symbols [of sv db rest "snd ?call"]
    by (metis map_of_eq_None_iff set_map)
  show ?case
  proof (cases r)
    case (Inl e)
    let ?s2 = "st_error (''Error fetching market data for '' @ symbol @ '' from Databento: '' @ str e) s1"
    from Cons.prems ext Inl have "fetch_candles sv db rest md ?s2 = (md', s')"
      by (simp add: Let_def)
    moreover from r Inl have fc: "fst ?call = Inl e" by simp
    ultimately show ?thesis
      using Cons.IH [of md ?s2, OF _ d] s1 none by (simp add: st_error_def)
  next
    case (Inr df)
    from Cons.prems ext Inr have rec: "fetch_candles sv db rest (md(symbol \<mapsto> df)) s1 = (md', s')"
      by (simp add: Let_def)
    from r Inr have fc: "fst ?call = Inr df" by simp
    note ih = Cons.IH [OF rec d]
    from ih s1 have nt: "notices s' = notices s @ candle_errors (candle_outcomes sv db rest (snd ?call))"
      by simp
    from ih s1 have st: "\<And>v. md' v =
        (case map_of (candle_outcomes sv db rest (snd ?call)) v of
           Some (Inr df') \<Rightarrow> Some df' | Some (Inl e) \<Rightarrow> (md(symbol \<mapsto> df)) v
         | None \<Rightarrow> (md(symbol \<mapsto> df)) v)"
      by simp
    have "\<And>v. md' v = (case map_of (candle_outcomes sv db (symbol # rest) (world s)) v of
                     Some (Inr df) \<Rightarrow> Some df | Some (Inl e) \<Rightarrow> md v | None \<Rightarrow> md v)"
    proof -
      fix v
      show "md' v = (case map_of (candle_outcomes sv db (symbol # rest) (world s)) v of
                     Some (Inr df) \<Rightarrow> Some df | Some (Inl e) \<Rightarrow> md v | None \<Rightarrow> md v)"
      proof (cases "v = symbol")
        case True
        with st [of symbol] none fc show ?thesis by simp
      next
        case False
        with st [of v] show ?thesis by (simp split: option.splits sum.splits)
      qed
    qed
    with nt fc show ?thesis by simp
  qed
qed

lemma load_market_store:
  "\<forall>t\<in>set trades. t ''symbol'' \<noteq> None \<Longrightarrow>
     \<exists>md s' syms. load_market sv (Some db) trades s = (Inr md, s') \<and>
       distinct syms \<and> set syms = set (trade_symbols trades) \<and>
       md = answered (candle_outcomes sv db syms (world s)) \<and>
       notices s' = notices s @ candle_errors (candle_outcomes sv db syms (world s))"
proof (cases "trades = []")
  case True
  have "load_market sv (Some db) trades s = (Inr Map.empty, s) \<and>
       distinct [] \<and> set [] = set (trade_symbols trades) \<and>
       Map.empty = answered (candle_outcomes sv db [] (world s)) \<and>
       notices s = notices s @ candle_errors (candle_outcomes sv db [] (world s))"
    using True by (auto simp: load_market_def answered_def)
  then show ?thesis by blast
next
  case False
  assume wf: "\<forall>t\<in>set trades. t ''symbol'' \<noteq> None"
  let ?syms = "remdups (trade_symbols trades)"
  obtain md s' where f: "fetch_candles sv db ?syms Map.empty s = (md, s')"
    by (metis surj_pair)
  from False f symbol_column_total [OF wf]
  have m: "load_market sv (Some db) trades s = (Inr md, s')"
    by (simp add: load_market_def)
  from fetch_candles_store [OF f] have
    st: "\<forall>v. md v = (case map_of (candle_outcomes sv db ?syms (world s)) v of
                     Some (Inr df) \<Rightarrow> Some df | Some (Inl e) \<Rightarrow> None | None \<Rightarrow> None)"
    and nt: "notices s' = notices s @ candle_errors (candle_outcomes sv db ?syms (world s))"
    by simp_all
  from st have "md = answered (candle_outcomes sv db ?syms (world s))"
    by (auto simp: answered_def)
  with m nt have "load_market sv (Some db) trades s = (Inr md, s') \<and>
       distinct ?syms \<and> set ?syms = set (trade_symbols trades) \<and>
       md = answered (candle_outcomes sv db ?syms (world s)) \<and>
       notices s' = notices s @ candle_errors (candle_outcomes sv db ?syms (world s))"
    by simp
  then show ?thesis by blast
qed

lemma distinct_count_list:
  "distinct xs \<Longrightarrow> count_list xs v = (if v \<in> set xs then 1 else 0)"
  by (induction xs) auto

lemmas demo_simps = demo_services_def demo_supabase_def demo_databento_def demo_rows_def
  trade_mes_def trade_nq_def journal_mes_def run0_def external_def
  st_error_def st_success_def st_warning_def st_info_def timedelta_days_def

lemma demo_sup:
  "load_supabase (demo_services demo_rows) (Some demo_supabase) run0 =
     ((demo_rows, [journal_mes]),
      \<lparr>world = 2, notices = [Success ''Data fetched from Supabase.''],
       calls = [FetchTrades, FetchJournals]\<rparr>)"
  by (simp add: load_supabase_def demo_services_def demo_supabase_def run0_def external_def
        st_success_def)

text \<open>
  C4, as amended. For every list of trades the database returned in which every trade
  has the field \<open>symbol\<close>, and a configured market-data client, the live branch of \<^verbatim>\<open>load_data\<close> returns and requests
  candlestick data exactly once per distinct symbol of the trades: the requested
  symbols are pairwise different and are exactly the trades' symbols, each request
  asks for the thirty days that end at the clock reading of the moment it is made, and
  the number of requests does not depend on which of them fail (no retry).
\<close>

theorem C4_one_request_per_symbol:
  "load_supabase sv sc s = ((trades, journals), s1) \<Longrightarrow>
   \<forall>t\<in>set trades. t ''symbol'' \<noteq> None \<Longrightarrow>
   \<exists>md s' syms.
     load_data sv sc (Some db) False s = (Inr (trades, journals, md), s') \<and>
     distinct (candle_symbols (calls_since s s')) \<and>
     set (candle_symbols (calls_since s s')) = set (trade_symbols trades) \<and>
     length (candle_symbols (calls_since s s')) = card (set (trade_symbols trades)) \<and>
     (\<forall>v. count_list (candle_symbols (calls_since s s')) v
            = (if v \<in> set (trade_symbols trades) then 1 else 0)) \<and>
     list_all thirty_day_window (calls_since s s') \<and>
     distinct syms \<and> set syms = set (trade_symbols trades) \<and>
     calls_since s1 s' = candle_trace sv db syms (world s1)"
proof -
  assume sup: "load_supabase sv sc s = ((trades, journals), s1)"
  assume wf: "\<forall>t\<in>set trades. t ''symbol'' \<noteq> None"
  let ?syms = "remdups (trade_symbols trades)"
  from load_supabase_run [OF sup] obtain cs where
    cs: "calls s1 = calls s @ cs" "candle_symbols cs = []" "list_all thirty_day_window cs"
    by blast
  from load_market_returns [OF wf, of sv db s1] obtain md s' where
    m: "load_market sv (Some db) trades s1 = (Inr md, s')"
    and tr: "calls s' = calls s1 @ candle_trace sv db ?syms (world s1)"
    by blast
  from sup m have run: "load_data sv sc (Some db) False s = (Inr (trades, journals, md), s')"
    by (simp add: load_data_def)
  from cs tr have all: "calls_since s s' = cs @ candle_trace sv db ?syms (world s1)"
    by (simp add: calls_since_def)
  then have sy: "candle_symbols (calls_since s s') = ?syms"
    using cs by (simp add: candle_symbols_append candle_trace_symbols)
  have win: "list_all thirty_day_window (calls_since s s')"
    using all cs by (simp add: candle_trace_window)
  have since: "calls_since s1 s' = candle_trace sv db ?syms (world s1)"
    using tr by (simp add: calls_since_def)
  have cnt: "\<forall>v. count_list ?syms v = (if v \<in> set (trade_symbols trades) then 1 else 0)"
    using distinct_count_list [of ?syms] by simp
  have len: "length ?syms = card (set (trade_symbols trades))"
    by (simp add: length_remdups_card_conv)
  have d: "distinct ?syms \<and> set ?syms = set (trade_symbols trades)" by simp
  from run sy win since cnt len d show ?thesis
    by (intro exI [of _ md] exI [of _ s'] exI [of _ ?syms]) simp
qed

theorem C4_one_request_per_symbol_witness:
  "distinct (candle_symbols (calls_since run0 (snd (load_data (demo_services demo_rows)
       (Some demo_supabase) (Some demo_databento) False run0)))) \<and>
   candle_symbols (calls_since run0 (snd (load_data (demo_services demo_rows)
       (Some demo_supabase) (Some demo_databento) False run0))) = [''NQ'', ''MES''] \<and>
   calls (snd (load_data (demo_services demo_rows) (Some demo_supabase) (Some demo_databento)
       False run0)) =
     [FetchTrades, FetchJournals,
      GetCandlestickData ''NQ'' 1697408000000002 1700000000000002,
      GetCandlestickData ''MES'' 1697408000000003 1700000000000003]"
proof -
  have wf: "\<forall>t\<in>set demo_rows. t ''symbol'' \<noteq> None"
    by (simp add: demo_rows_def trade_mes_def trade_nq_def)
  from C4_one_request_per_symbol [OF demo_sup wf, of demo_databento] obtain md s' where
    run: "load_data (demo_services demo_rows) (Some demo_supabase) (Some demo_databento) False run0
            = (Inr (demo_rows, [journal_mes], md), s')"
    and d: "distinct (candle_symbols (calls_since run0 s'))"
    by blast
  from run have s': "s' = snd (load_data (demo_services demo_rows) (Some demo_supabase)
      (Some demo_databento) False run0)" by simp
  have tr: "calls (snd (load_data (demo_services demo_rows) (Some demo_supabase)
       (Some demo_databento) False run0)) =
     [FetchTrades, FetchJournals,
      GetCandlestickData ''NQ'' 1697408000000002 1700000000000002,
      GetCandlestickData ''MES'' 1697408000000003 1700000000000003]"
    by (simp add: load_data_def load_market_def load_supabase_def demo_simps Let_def)
  from d show ?thesis unfolding s' using tr by (simp add: calls_since_def run0_def)
qed

text \<open>
  The claim as written, for every list of trades, fails on a list with a trade that
  has no field \<open>symbol\<close>: the comprehension of line 72 raises \<^verbatim>\<open>KeyError\<close> before the loop,
  and no candlestick request is made although the symbol \<open>MES\<close> occurs in the trades.
\<close>

theorem C4_missing_symbol_counterexample:
  "trade_symbols rows_unnamed = [''MES''] \<and>
   fst (load_data (demo_services rows_unnamed) (Some demo_supabase) (Some demo_databento) False run0)
     = Inl (Exn KeyError (CHR 0x27 # ''symbol'' @ [CHR 0x27])) \<and>
   calls (snd (load_data (demo_services rows_unnamed) (Some demo_supabase) (Some demo_databento)
       False run0)) = [FetchTrades, FetchJournals] \<and>
   candle_symbols (calls_since run0 (snd (load_data (demo_services rows_unnamed)
       (Some demo_supabase) (Some demo_databento) False run0))) = []"
  by (simp add: load_data_def load_market_def load_supabase_def demo_services_def
        demo_supabase_def demo_databento_def rows_unnamed_def trade_mes_def trade_unnamed_def
        run0_def external_def st_success_def calls_since_def)

text \<open>
  C9. In the live branch of \<^verbatim>\<open>load_data\<close> market data is requested only when the
  market-data client is configured and the list of fetched trades is not empty. With
  no client or no trades (the database client missing, its fetch failing or returning
  no rows) the returned \<^verbatim>\<open>market_data\<close> is empty and no candlestick request is made; and
  every key of the returned \<^verbatim>\<open>market_data\<close> is a symbol of a returned trade.
\<close>

theorem C9_market_data_needs_client_and_trades:
  "load_supabase sv sc s = ((trades, journals), s1) \<Longrightarrow>
     (dc = None \<or> trades = [] \<longrightarrow>
        load_data sv sc dc False s = (Inr (trades, journals, Map.empty), s1) \<and>
        candle_symbols (calls_since s s1) = []) \<and>
     (sc = None \<longrightarrow> trades = []) \<and>
     (\<forall>c. sc = Some c \<and> (fst (fetch_trades sv c (world s)) = Inr [] \<or>
                          (\<exists>e. fst (fetch_trades sv c (world s)) = Inl e)) \<longrightarrow> trades = []) \<and>
     (candle_symbols (calls_since s (snd (load_data sv sc dc False s))) \<noteq> [] \<longrightarrow>
        dc \<noteq> None \<and> trades \<noteq> []) \<and>
     (\<forall>md s'. load_data sv sc dc False s = (Inr (t, j, md), s') \<longrightarrow>
        t = trades \<and> j = journals \<and> dom md \<subseteq> set (trade_symbols trades))"
proof -
  assume sup: "load_supabase sv sc s = ((trades, journals), s1)"
  from load_supabase_run [OF sup] obtain cs where
    cs: "calls s1 = calls s @ cs" "candle_symbols cs = []" by blast
  have quiet: "candle_symbols (calls_since s s1) = []"
    using cs by (simp add: calls_since_def)
  have a: "dc = None \<or> trades = [] \<longrightarrow>
        load_data sv sc dc False s = (Inr (trades, journals, Map.empty), s1)"
    using sup by (auto simp: load_data_def load_market_none load_market_no_trades)
  have b: "sc = None \<longrightarrow> trades = []"
    using sup by (auto simp: load_supabase_def)
  have c: "\<forall>c. sc = Some c \<and> (fst (fetch_trades sv c (world s)) = Inr [] \<or>
                          (\<exists>e. fst (fetch_trades sv c (world s)) = Inl e)) \<longrightarrow> trades = []"
    using sup by (auto simp: load_supabase_def external_def split: prod.splits sum.splits)
  obtain r s2 where m: "load_market sv dc trades s1 = (r, s2)" by (metis surj_pair)
  have d: "candle_symbols (calls_since s (snd (load_data sv sc dc False s))) \<noteq> [] \<longrightarrow>
        dc \<noteq> None \<and> trades \<noteq> []"
  proof (cases r)
    case (Inl e)
    with m load_market_keyerror [of sv dc trades s1 e s2] have "s2 = s1" by simp
    with sup m Inl quiet show ?thesis by (simp add: load_data_def)
  next
    case (Inr md)
    with m load_market_dom [of sv dc trades s1 md s2] obtain cs2 where
      cs2: "calls s2 = calls s1 @ cs2" "candle_symbols cs2 \<noteq> [] \<longrightarrow> dc \<noteq> None \<and> trades \<noteq> []"
      by blast
    from cs cs2 have "candle_symbols (calls_since s s2) = candle_symbols cs2"
      by (simp add: calls_since_def candle_symbols_append)
    with sup m Inr cs2 show ?thesis by (simp add: load_data_def)
  qed
  have e: "\<forall>md s'. load_data sv sc dc False s = (Inr (t, j, md), s') \<longrightarrow>
        t = trades \<and> j = journals \<and> dom md \<subseteq> set (trade_symbols trades)"
    using sup m load_market_dom [of sv dc trades s1]
    by (cases r) (auto simp: load_data_def)
  from a quiet b c d e show ?thesis by blast
qed

theorem C9_market_data_witness:
  "load_data (demo_services []) (Some demo_supabase) (Some demo_databento) False run0 =
     (Inr ([], [journal_mes], no_market_data),
      \<lparr>world = 2, notices = [Success ''Data fetched from Supabase.''],
       calls = [FetchTrades, FetchJournals]\<rparr>) \<and>
   dom (snd (snd (projr (fst (load_data (demo_services demo_rows) (Some demo_supabase)
       (Some demo_databento) False run0))))) = {''MES''}"
proof -
  have sup: "load_supabase (demo_services []) (Some demo_supabase) run0 =
     (([], [journal_mes]),
      \<lparr>world = 2, notices = [Success ''Data fetched from Supabase.''],
       calls = [FetchTrades, FetchJournals]\<rparr>)"
    by (simp add: load_supabase_def demo_services_def demo_supabase_def run0_def external_def
        st_success_def)
  have run: "load_data (demo_services demo_rows) (Some demo_supabase)
       (Some demo_databento) False run0 =
     (Inr (demo_rows, [journal_mes], [''MES'' \<mapsto> ''candles of MES'']),
      snd (load_data (demo_services demo_rows) (Some demo_supabase)
       (Some demo_databento) False run0))"
    by (simp add: load_data_def load_market_def load_supabase_def demo_simps Let_def)
  from C9_market_data_needs_client_and_trades [OF sup, of "Some demo_databento"]
  have "Some demo_databento = None \<or> ([] :: row list) = [] \<longrightarrow>
     load_data (demo_services []) (Some demo_supabase) (Some demo_databento) False run0 =
     (Inr ([], [journal_mes], Map.empty),
      \<lparr>world = 2, notices = [Success ''Data fetched from Supabase.''],
       calls = [FetchTrades, FetchJournals]\<rparr>) \<and>
     candle_symbols (calls_since run0 \<lparr>world = 2, notices = [Success ''Data fetched from Supabase.''],
       calls = [FetchTrades, FetchJournals]\<rparr>) = []"
    by (rule conjunct1)
  then have "load_data (demo_services []) (Some demo_supabase) (Some demo_databento) False run0 =
     (Inr ([], [journal_mes], Map.empty),
      \<lparr>world = 2, notices = [Success ''Data fetched from Supabase.''],
       calls = [FetchTrades, FetchJournals]\<rparr>)" by simp
  moreover have "dom (snd (snd (projr (fst (load_data (demo_services demo_rows)
       (Some demo_supabase) (Some demo_databento) False run0))))) = {''MES''}"
    by (subst run) simp
  ultimately show ?thesis by (simp add: no_market_data_def)
qed


section \<open>Exceptions of outside calls\<close>

lemma load_data_live:
  "load_supabase sv sc s = ((trades, journals), s1) \<Longrightarrow>
   load_market sv dc trades s1 = (r, s2) \<Longrightarrow>
     load_data sv sc dc False s =
       (case r of Inl e \<Rightarrow> Inl e | Inr md \<Rightarrow> Inr (trades, journals, md), s2)"
  by (simp add: load_data_def split: sum.splits)

lemma load_data_live_raises:
  "fst (load_data sv sc dc False s) = Inl e \<Longrightarrow>
     e = Exn KeyError (CHR 0x27 # ''symbol'' @ [CHR 0x27]) \<and>
     (\<exists>t\<in>set (fst (fst (load_supabase sv sc s))). t ''symbol'' = None)"
proof -
  assume raised: "fst (load_data sv sc dc False s) = Inl e"
  obtain trades journals s1 where sup: "load_supabase sv sc s = ((trades, journals), s1)"
    by (metis surj_pair)
  obtain r s2 where m: "load_market sv dc trades s1 = (r, s2)" by (metis surj_pair)
  from raised load_data_live [OF sup m] have "r = Inl e" by (cases r) simp_all
  with m load_market_keyerror [of sv dc trades s1 e s2] sup show ?thesis by simp
qed

lemma load_data_live_returns:
  "\<forall>t\<in>set (fst (fst (load_supabase sv sc s))). t ''symbol'' \<noteq> None \<Longrightarrow>
     \<exists>d. fst (load_data sv sc dc False s) = Inr d"
proof -
  assume wf: "\<forall>t\<in>set (fst (fst (load_supabase sv sc s))). t ''symbol'' \<noteq> None"
  show ?thesis
  proof (cases "fst (load_data sv sc dc False s)")
    case (Inl e)
    from load_data_live_raises [OF Inl] wf show ?thesis by blast
  next
    case (Inr d)
    then show ?thesis by blast
  qed
qed

lemma load_data_notices:
  "\<exists>ns. notices (snd (load_data sv sc dc b s)) = notices s @ ns"
proof (cases b)
  case True
  then show ?thesis
    by (simp add: load_data_def load_sample_def st_info_def st_warning_def Let_def
             split: prod.splits)
next
  case False
  obtain trades journals s1 where sup: "load_supabase sv sc s = ((trades, journals), s1)"
    by (metis surj_pair)
  obtain r s2 where m: "load_market sv dc trades s1 = (r, s2)" by (metis surj_pair)
  from load_supabase_run [OF sup] obtain ns1 where n1: "notices s1 = notices s @ ns1" by blast
  have "\<exists>ns2. notices s2 = notices s1 @ ns2"
  proof (cases r)
    case (Inl e)
    with m load_market_keyerror [of sv dc trades s1 e s2] show ?thesis by simp
  next
    case (Inr md)
    with m load_market_dom [of sv dc trades s1 md s2] show ?thesis by blast
  qed
  then obtain ns2 where n2: "notices s2 = notices s1 @ ns2" by blast
  from load_data_live [OF sup m] have "snd (load_data sv sc dc False s) = s2" by simp
  with n1 n2 False show ?thesis by simp
qed

lemma load_data_after_supabase:
  "load_supabase sv sc s = ((trades, journals), s1) \<Longrightarrow>
   dc = None \<or> (\<forall>t\<in>set trades. t ''symbol'' \<noteq> None) \<Longrightarrow>
     \<exists>md s' ns. load_data sv sc dc False s = (Inr (trades, journals, md), s') \<and>
       notices s' = notices s1 @ ns"
proof -
  assume sup: "load_supabase sv sc s = ((trades, journals), s1)"
    and ok: "dc = None \<or> (\<forall>t\<in>set trades. t ''symbol'' \<noteq> None)"
  show ?thesis
  proof (cases dc)
    case None
    from load_data_live [OF sup load_market_none] None
    have "load_data sv sc dc False s = (Inr (trades, journals, Map.empty), s1) \<and>
      notices s1 = notices s1 @ []" by simp
    then show ?thesis by blast
  next
    case (Some db)
    with ok have wf: "\<forall>t\<in>set trades. t ''symbol'' \<noteq> None" by simp
    from load_market_returns [OF wf, of sv db s1] obtain md s' ns where
      m: "load_market sv (Some db) trades s1 = (Inr md, s')"
      and nt: "notices s' = notices s1 @ ns" by blast
    from load_data_live [OF sup m] Some nt show ?thesis by simp
  qed
qed

lemma fetch_trades_raises:
  "fetch_trades sv c (world s) = (Inl e, w1) \<Longrightarrow>
     load_supabase sv (Some c) s =
       (([], []), st_error (''Error fetching data from Supabase: '' @ str e)
                    (s\<lparr>world := w1, calls := calls s @ [FetchTrades]\<rparr>))"
  by (simp add: load_supabase_def external_def)

lemma fetch_journals_raises:
  "fetch_trades sv c (world s) = (Inr trades, w1) \<Longrightarrow>
   fetch_journals sv c w1 = (Inl e, w2) \<Longrightarrow>
     load_supabase sv (Some c) s =
       ((trades, []), st_error (''Error fetching data from Supabase: '' @ str e)
                        (s\<lparr>world := w2, calls := calls s @ [FetchTrades, FetchJournals]\<rparr>))"
  by (simp add: load_supabase_def external_def)

lemma fetch_both_return:
  "fetch_trades sv c (world s) = (Inr trades, w1) \<Longrightarrow>
   fetch_journals sv c w1 = (Inr journals, w2) \<Longrightarrow>
     load_supabase sv (Some c) s =
       ((trades, journals), st_success ''Data fetched from Supabase.''
                        (s\<lparr>world := w2, calls := calls s @ [FetchTrades, FetchJournals]\<rparr>))"
  by (simp add: load_supabase_def external_def)

lemma candle_request_raises:
  "get_candlestick_data sv db symbol (now sv (world s) - timedelta_days 30) (now sv (world s))
       (world s) = (Inl e, w1) \<Longrightarrow>
     fetch_candles sv db (symbol # rest) md s =
       fetch_candles sv db rest md
         (st_error (''Error fetching market data for '' @ symbol @ '' from Databento: '' @ str e)
            (s\<lparr>world := w1,
               calls := calls s @ [GetCandlestickData symbol
                  (now sv (world s) - timedelta_days 30) (now sv (world s))]\<rparr>))"
  by (simp add: external_def Let_def)

lemma sign_up_raises:
  "auth_sign_up au c email password (world s) = (Inl e, w') \<Longrightarrow>
     sign_up au (Some c) email password ss s =
       ((None, Some (str e)), ss,
        s\<lparr>world := w', calls := calls s @ [AuthSignUp email password]\<rparr>)"
  by (simp add: sign_up_def external_def)

text \<open>
  C1. Every call of an outside service (fetching trades, journals and candlestick data,
  sign-up, sign-in) is wrapped: whatever exception it raises is caught, its message is
  shown as an error notification (\<^verbatim>\<open>load_data\<close>) or returned as the error string
  (\<^verbatim>\<open>sign_up\<close>, \<^verbatim>\<open>sign_in\<close>, whose form handler then shows it), and the run goes on with what
  was obtained: no trades and no journals when the first fetch fails, the trades and no
  journals when the second fails, the other symbols when one candlestick request fails.
  What \<^verbatim>\<open>load_data\<close> returns is exactly that: the fetched trades and journals, and a
  \<^verbatim>\<open>market_data\<close> that holds, for each symbol, the table its request returned and nothing
  for a request that raised, with one error notification per request that raised.
  No such exception leaves \<^verbatim>\<open>load_data\<close>, \<^verbatim>\<open>sign_up\<close> or \<^verbatim>\<open>sign_in\<close>: the only exception that
  can leave the live branch of \<^verbatim>\<open>load_data\<close> is the \<^verbatim>\<open>KeyError\<close> of a fetched trade without
  the field \<open>symbol\<close>, raised by the script itself.
\<close>

theorem C1_external_calls_are_caught:
  "(fetch_trades sv c (world s) = (Inl e, w1) \<longrightarrow>
      load_data sv (Some c) dc False s =
        (Inr ([], [], Map.empty),
         st_error (''Error fetching data from Supabase: '' @ str e)
           (s\<lparr>world := w1, calls := calls s @ [FetchTrades]\<rparr>))) \<and>
   (fetch_trades sv c (world s) = (Inr trades, w1) \<and> fetch_journals sv c w1 = (Inl e, w2) \<longrightarrow>
      load_supabase sv (Some c) s =
        ((trades, []),
         st_error (''Error fetching data from Supabase: '' @ str e)
           (s\<lparr>world := w2, calls := calls s @ [FetchTrades, FetchJournals]\<rparr>))) \<and>
   (get_candlestick_data sv db symbol (now sv (world s) - timedelta_days 30) (now sv (world s))
        (world s) = (Inl e, w1) \<longrightarrow>
      fetch_candles sv db (symbol # rest) md s =
        fetch_candles sv db rest md
          (st_error (''Error fetching market data for '' @ symbol @ '' from Databento: '' @ str e)
             (s\<lparr>world := w1,
                calls := calls s @ [GetCandlestickData symbol
                   (now sv (world s) - timedelta_days 30) (now sv (world s))]\<rparr>))) \<and>
   (fst (load_data sv sc dc False s) = Inl e \<longrightarrow>
      e = Exn KeyError (CHR 0x27 # ''symbol'' @ [CHR 0x27]) \<and>
      (\<exists>t\<in>set (fst (fst (load_supabase sv sc s))). t ''symbol'' = None)) \<and>
   ((\<forall>t\<in>set (fst (fst (load_supabase sv sc s))). t ''symbol'' \<noteq> None) \<longrightarrow>
      (\<exists>d. fst (load_data sv sc dc False s) = Inr d)) \<and>
   (auth_sign_up au cl email password (world s) = (Inl e, w1) \<longrightarrow>
      sign_up au (Some cl) email password ss s =
        ((None, Some (str e)), ss,
         s\<lparr>world := w1, calls := calls s @ [AuthSignUp email password]\<rparr>) \<and>
      (str e \<noteq> [] \<longrightarrow>
         submit_form au (Some cl) ''Sign Up'' email password ss s =
           (False, ss, st_error (''Sign-up failed: '' @ str e)
              (s\<lparr>world := w1, calls := calls s @ [AuthSignUp email password]\<rparr>)))) \<and>
   (auth_sign_in_with_password au cl email password (world s) = (Inl e, w1) \<longrightarrow>
      sign_in au (Some cl) email password ss s =
        ((None, Some (str e)), ss,
         s\<lparr>world := w1, calls := calls s @ [AuthSignInWithPassword email password]\<rparr>) \<and>
      (str e \<noteq> [] \<longrightarrow>
         submit_form au (Some cl) ''Sign In'' email password ss s =
           (False, ss, st_error (''Sign-in failed: '' @ str e)
              (s\<lparr>world := w1, calls := calls s @ [AuthSignInWithPassword email password]\<rparr>)))) \<and>
   (fetch_trades sv c (world s) = (Inr trades, w1) \<and> fetch_journals sv c w1 = (Inl e, w2) \<and>
    (dc = None \<or> (\<forall>t\<in>set trades. t ''symbol'' \<noteq> None)) \<longrightarrow>
      (\<exists>md s'. load_data sv (Some c) dc False s = (Inr (trades, [], md), s') \<and>
         Error (''Error fetching data from Supabase: '' @ str e) \<in> set (notices s'))) \<and>
   (fetch_trades sv c (world s) = (Inr trades, w1) \<and>
    fetch_journals sv c w1 = (Inr fetched_journals, w2) \<and>
    (dc = None \<or> (\<forall>t\<in>set trades. t ''symbol'' \<noteq> None)) \<longrightarrow>
      (\<exists>md s'. load_data sv (Some c) dc False s = (Inr (trades, fetched_journals, md), s'))) \<and>
   (load_supabase sv sc s = ((rows, journals), s1) \<and> (\<forall>t\<in>set rows. t ''symbol'' \<noteq> None) \<longrightarrow>
      (\<exists>md s' syms.
         load_data sv sc (Some db) False s = (Inr (rows, journals, md), s') \<and>
         distinct syms \<and> set syms = set (trade_symbols rows) \<and>
         md = answered (candle_outcomes sv db syms (world s1)) \<and>
         notices s' = notices s1 @ candle_errors (candle_outcomes sv db syms (world s1))))"
proof (intro conjI impI)
  assume "fetch_trades sv c (world s) = (Inl e, w1)"
  from load_data_live [OF fetch_trades_raises [OF this] load_market_no_trades]
  show "load_data sv (Some c) dc False s =
        (Inr ([], [], Map.empty),
         st_error (''Error fetching data from Supabase: '' @ str e)
           (s\<lparr>world := w1, calls := calls s @ [FetchTrades]\<rparr>))" by simp
next
  assume "fetch_trades sv c (world s) = (Inr trades, w1) \<and> fetch_journals sv c w1 = (Inl e, w2)"
  then have t: "fetch_trades sv c (world s) = (Inr trades, w1)"
    and j: "fetch_journals sv c w1 = (Inl e, w2)" by simp_all
  from fetch_journals_raises [OF t j]
  show "load_supabase sv (Some c) s =
        ((trades, []),
         st_error (''Error fetching data from Supabase: '' @ str e)
           (s\<lparr>world := w2, calls := calls s @ [FetchTrades, FetchJournals]\<rparr>))" .
next
  assume "get_candlestick_data sv db symbol (now sv (world s) - timedelta_days 30)
        (now sv (world s)) (world s) = (Inl e, w1)"
  then show "fetch_candles sv db (symbol # rest) md s =
        fetch_candles sv db rest md
          (st_error (''Error fetching market data for '' @ symbol @ '' from Databento: '' @ str e)
             (s\<lparr>world := w1,
                calls := calls s @ [GetCandlestickData symbol
                   (now sv (world s) - timedelta_days 30) (now sv (world s))]\<rparr>))"
    by (rule candle_request_raises)
next
  assume r: "fst (load_data sv sc dc False s) = Inl e"
  from load_data_live_raises [OF r]
  show "e = Exn KeyError (CHR 0x27 # ''symbol'' @ [CHR 0x27])" by blast
  from load_data_live_raises [OF r]
  show "\<exists>t\<in>set (fst (fst (load_supabase sv sc s))). t ''symbol'' = None" by blast
next
  assume "\<forall>t\<in>set (fst (fst (load_supabase sv sc s))). t ''symbol'' \<noteq> None"
  then show "\<exists>d. fst (load_data sv sc dc False s) = Inr d"
    by (rule load_data_live_returns)
next
  assume up: "auth_sign_up au cl email password (world s) = (Inl e, w1)"
  from sign_up_raises [OF up]
  show "sign_up au (Some cl) email password ss s =
        ((None, Some (str e)), ss,
         s\<lparr>world := w1, calls := calls s @ [AuthSignUp email password]\<rparr>)" .
  assume "str e \<noteq> []"
  with sign_up_raises [OF up, of ss]
  show "submit_form au (Some cl) ''Sign Up'' email password ss s =
           (False, ss, st_error (''Sign-up failed: '' @ str e)
              (s\<lparr>world := w1, calls := calls s @ [AuthSignUp email password]\<rparr>))"
    by (simp add: submit_form_def)
next
  assume si: "auth_sign_in_with_password au cl email password (world s) = (Inl e, w1)"
  from sign_in_raises [OF si]
  show "sign_in au (Some cl) email password ss s =
        ((None, Some (str e)), ss,
         s\<lparr>world := w1, calls := calls s @ [AuthSignInWithPassword email password]\<rparr>)" .
  assume "str e \<noteq> []"
  with sign_in_raises [OF si, of ss]
  show "submit_form au (Some cl) ''Sign In'' email password ss s =
           (False, ss, st_error (''Sign-in failed: '' @ str e)
              (s\<lparr>world := w1, calls := calls s @ [AuthSignInWithPassword email password]\<rparr>))"
    by (simp add: submit_form_def)
next
  assume "fetch_trades sv c (world s) = (Inr trades, w1) \<and> fetch_journals sv c w1 = (Inl e, w2) \<and>
    (dc = None \<or> (\<forall>t\<in>set trades. t ''symbol'' \<noteq> None))"
  then have t: "fetch_trades sv c (world s) = (Inr trades, w1)"
    and j: "fetch_journals sv c w1 = (Inl e, w2)"
    and ok: "dc = None \<or> (\<forall>t\<in>set trades. t ''symbol'' \<noteq> None)" by simp_all
  from load_data_after_supabase [OF fetch_journals_raises [OF t j] ok]
  obtain md s' ns where
    run: "load_data sv (Some c) dc False s = (Inr (trades, [], md), s')"
    and nt: "notices s' = notices (st_error (''Error fetching data from Supabase: '' @ str e)
        (s\<lparr>world := w2, calls := calls s @ [FetchTrades, FetchJournals]\<rparr>)) @ ns"
    by blast
  from nt have "Error (''Error fetching data from Supabase: '' @ str e) \<in> set (notices s')"
    by (simp add: st_error_def)
  with run
  show "\<exists>md s'. load_data sv (Some c) dc False s = (Inr (trades, [], md), s') \<and>
         Error (''Error fetching data from Supabase: '' @ str e) \<in> set (notices s')"
    by blast
next
  assume "fetch_trades sv c (world s) = (Inr trades, w1) \<and>
    fetch_journals sv c w1 = (Inr fetched_journals, w2) \<and>
    (dc = None \<or> (\<forall>t\<in>set trades. t ''symbol'' \<noteq> None))"
  then have t: "fetch_trades sv c (world s) = (Inr trades, w1)"
    and j: "fetch_journals sv c w1 = (Inr fetched_journals, w2)"
    and ok: "dc = None \<or> (\<forall>t\<in>set trades. t ''symbol'' \<noteq> None)" by simp_all
  from load_data_after_supabase [OF fetch_both_return [OF t j] ok]
  show "\<exists>md s'. load_data sv (Some c) dc False s = (Inr (trades, fetched_journals, md), s')"
    by blast
next
  assume "load_supabase sv sc s = ((rows, journals), s1) \<and> (\<forall>t\<in>set rows. t ''symbol'' \<noteq> None)"
  then have sup: "load_supabase sv sc s = ((rows, journals), s1)"
    and wf: "\<forall>t\<in>set rows. t ''symbol'' \<noteq> None" by simp_all
  from load_market_store [OF wf, of sv db s1] obtain md s' syms where
    m: "load_market sv (Some db) rows s1 = (Inr md, s')"
    and rest: "distinct syms" "set syms = set (trade_symbols rows)"
      "md = answered (candle_outcomes sv db syms (world s1))"
      "notices s' = notices s1 @ candle_errors (candle_outcomes sv db syms (world s1))"
    by blast
  from load_data_live [OF sup m]
  have "load_data sv sc (Some db) False s = (Inr (rows, journals, md), s')" by simp
  with rest
  show "\<exists>md s' syms.
         load_data sv sc (Some db) False s = (Inr (rows, journals, md), s') \<and>
         distinct syms \<and> set syms = set (trade_symbols rows) \<and>
         md = answered (candle_outcomes sv db syms (world s1)) \<and>
         notices s' = notices s1 @ candle_errors (candle_outcomes sv db syms (world s1))"
    by blast
qed

theorem C1_external_calls_are_caught_witness:
  "load_supabase (demo_services demo_rows) (Some demo_supabase_no_journals) run0 =
     ((demo_rows, []),
      \<lparr>world = 2,
       notices = [Error ''Error fetching data from Supabase: relation journals does not exist''],
       calls = [FetchTrades, FetchJournals]\<rparr>) \<and>
   sign_in demo_auth (Some demo_client) ''ada@example.org'' ''guess'' Map.empty run0 =
     ((None, Some ''Invalid login credentials''), Map.empty,
      \<lparr>world = 1, notices = [],
       calls = [AuthSignInWithPassword ''ada@example.org'' ''guess'']\<rparr>) \<and>
   fst (load_data (demo_services demo_rows) (Some demo_supabase_no_journals)
          (Some demo_databento) False run0)
     = Inr (demo_rows, [], [''MES'' \<mapsto> ''candles of MES'']) \<and>
   notices (snd (load_data (demo_services demo_rows) (Some demo_supabase_no_journals)
          (Some demo_databento) False run0))
     = [Error ''Error fetching data from Supabase: relation journals does not exist'',
        Error ''Error fetching market data for NQ from Databento: symbol not found'']"
proof -
  have t: "fetch_trades (demo_services demo_rows) demo_supabase_no_journals (world run0)
      = (Inr demo_rows, Suc 0)"
    by (simp add: demo_services_def demo_supabase_no_journals_def run0_def)
  have j: "fetch_journals (demo_services demo_rows) demo_supabase_no_journals (Suc 0)
      = (Inl (Exn OtherException ''relation journals does not exist''), 2)"
    by (simp add: demo_services_def demo_supabase_no_journals_def)
  have si: "auth_sign_in_with_password demo_auth demo_client ''ada@example.org'' ''guess''
      (world run0) = (Inl (Exn OtherException ''Invalid login credentials''), Suc 0)"
    by (simp add: demo_auth_def run0_def)
  note i1 = C1_external_calls_are_caught [where sv = "demo_services demo_rows"
      and c = demo_supabase_no_journals and s = run0 and trades = demo_rows and ?w1.0 = "Suc 0"
      and ?w2.0 = 2 and e = "Exn OtherException ''relation journals does not exist''"
      and dc = "Some demo_databento" and db = demo_databento and symbol = "''MES''" and rest = "[]"
      and md = Map.empty and sc = None and au = demo_auth and cl = demo_client
      and email = "''ada@example.org''" and password = "''guess''" and ss = Map.empty]
  from i1 [THEN conjunct2, THEN conjunct1]
  have "fetch_trades (demo_services demo_rows) demo_supabase_no_journals (world run0)
          = (Inr demo_rows, Suc 0) \<and>
        fetch_journals (demo_services demo_rows) demo_supabase_no_journals (Suc 0)
          = (Inl (Exn OtherException ''relation journals does not exist''), 2) \<longrightarrow>
      load_supabase (demo_services demo_rows) (Some demo_supabase_no_journals) run0 =
        ((demo_rows, []),
         st_error (''Error fetching data from Supabase: ''
                   @ str (Exn OtherException ''relation journals does not exist''))
           (run0\<lparr>world := 2, calls := calls run0 @ [FetchTrades, FetchJournals]\<rparr>))"
    .
  with t j have A: "load_supabase (demo_services demo_rows) (Some demo_supabase_no_journals) run0 =
     ((demo_rows, []),
      \<lparr>world = 2,
       notices = [Error ''Error fetching data from Supabase: relation journals does not exist''],
       calls = [FetchTrades, FetchJournals]\<rparr>)"
    by (simp add: st_error_def run0_def)
  note i2 = C1_external_calls_are_caught [where sv = "demo_services demo_rows"
      and c = demo_supabase_no_journals and s = run0 and trades = demo_rows and ?w1.0 = "Suc 0"
      and ?w2.0 = 2 and e = "Exn OtherException ''Invalid login credentials''"
      and dc = "Some demo_databento" and db = demo_databento and symbol = "''MES''" and rest = "[]"
      and md = Map.empty and sc = None and au = demo_auth and cl = demo_client
      and email = "''ada@example.org''" and password = "''guess''" and ss = Map.empty]
  from i2 [THEN conjunct2, THEN conjunct2, THEN conjunct2, THEN conjunct2, THEN conjunct2,
      THEN conjunct2, THEN conjunct1]
  have "auth_sign_in_with_password demo_auth demo_client ''ada@example.org'' ''guess''
          (world run0) = (Inl (Exn OtherException ''Invalid login credentials''), Suc 0) \<longrightarrow>
      sign_in demo_auth (Some demo_client) ''ada@example.org'' ''guess'' Map.empty run0 =
        ((None, Some (str (Exn OtherException ''Invalid login credentials''))), Map.empty,
         run0\<lparr>world := Suc 0,
              calls := calls run0 @ [AuthSignInWithPassword ''ada@example.org'' ''guess'']\<rparr>)"
    by blast
  with si have B: "sign_in demo_auth (Some demo_client) ''ada@example.org'' ''guess'' Map.empty run0 =
     ((None, Some ''Invalid login credentials''), Map.empty,
      \<lparr>world = 1, notices = [],
       calls = [AuthSignInWithPassword ''ada@example.org'' ''guess'']\<rparr>)"
    by (simp add: run0_def)
  have C: "fst (load_data (demo_services demo_rows) (Some demo_supabase_no_journals)
          (Some demo_databento) False run0)
     = Inr (demo_rows, [], [''MES'' \<mapsto> ''candles of MES''])"
    "notices (snd (load_data (demo_services demo_rows) (Some demo_supabase_no_journals)
          (Some demo_databento) False run0))
     = [Error ''Error fetching data from Supabase: relation journals does not exist'',
        Error ''Error fetching market data for NQ from Databento: symbol not found'']"
    by (simp_all add: load_data_def load_market_def load_supabase_def demo_simps
          demo_supabase_no_journals_def Let_def)
  from A B C show ?thesis by simp
qed


section \<open>Missing configuration and sample data\<close>

lemma load_data_no_supabase:
  "load_data sv None dc False s =
     (Inr ([], [], Map.empty),
      st_warning ''Supabase client not configured. Cannot fetch live data.'' s)"
  by (simp add: load_data_def load_supabase_def load_market_no_trades)

lemma main_unfold:
  "main sv cfg checkbox s =
     load_data sv
       (if is_supabase_configured cfg
        then Some (SupabaseClient (SUPABASE_URL cfg) (SUPABASE_KEY cfg)) else None)
       (if is_databento_configured cfg
        then Some (DatabentoClient (DATABENTO_API_KEY cfg)) else None)
       (case checkbox of
          None \<Rightarrow> \<not> (is_supabase_configured cfg \<or> is_topstep_configured cfg \<or>
                      is_databento_configured cfg \<or> is_openai_configured cfg)
        | Some b \<Rightarrow> b)
       (check_configuration cfg s)"
  by (simp add: main_def init_clients_def Let_def)


text \<open>
  C2, as amended. A missing configuration is neither silent nor a switch to sample
  data. Without a Supabase client the live branch of \<^verbatim>\<open>load_data\<close> raises nothing, shows
  the warning "Supabase client not configured. Cannot fetch live data." and returns
  empty trades, journals and market data; without a Databento client the market-data
  step is skipped without a message. \<^verbatim>\<open>main\<close> shows an error that names the missing values
  whenever \<^verbatim>\<open>Config.validate()\<close> reports any. Sample data is loaded only when the checkbox
  "Use Sample Data" is set, and it is set by default exactly when none of the four
  services is configured.
\<close>

theorem C2_missing_configuration:
  "load_data sv None dc False s =
     (Inr ([], [], Map.empty),
      st_warning ''Supabase client not configured. Cannot fetch live data.'' s) \<and>
   load_market sv None trades s = (Inr Map.empty, s) \<and>
   (\<not> is_supabase_configured cfg \<and>
    (is_topstep_configured cfg \<or> is_databento_configured cfg \<or> is_openai_configured cfg) \<longrightarrow>
      main sv cfg None s =
        (Inr ([], [], Map.empty),
         st_warning ''Supabase client not configured. Cannot fetch live data.''
           (check_configuration cfg s))) \<and>
   (\<not> is_supabase_configured cfg \<longrightarrow>
      main sv cfg (Some False) s =
        (Inr ([], [], Map.empty),
         st_warning ''Supabase client not configured. Cannot fetch live data.''
           (check_configuration cfg s))) \<and>
   (\<not> is_supabase_configured cfg \<and> \<not> is_topstep_configured cfg \<and>
    \<not> is_databento_configured cfg \<and> \<not> is_openai_configured cfg \<longrightarrow>
      main sv cfg None s = load_data sv None None True (check_configuration cfg s)) \<and>
   (validate cfg \<noteq> [] \<longrightarrow>
      check_configuration cfg s =
        st_info ''Please set up your `.env` file with the required API keys. See `.env.example` for reference.''
          (st_error (warning_sign @ '' Missing required configuration: ''
                     @ join '', '' (validate cfg)) s)) \<and>
   (validate cfg = [] \<longrightarrow> check_configuration cfg s = s) \<and>
   main sv cfg checkbox s =
     load_data sv
       (if is_supabase_configured cfg
        then Some (SupabaseClient (SUPABASE_URL cfg) (SUPABASE_KEY cfg)) else None)
       (if is_databento_configured cfg
        then Some (DatabentoClient (DATABENTO_API_KEY cfg)) else None)
       (case checkbox of
          None \<Rightarrow> \<not> (is_supabase_configured cfg \<or> is_topstep_configured cfg \<or>
                      is_databento_configured cfg \<or> is_openai_configured cfg)
        | Some b \<Rightarrow> b)
       (check_configuration cfg s) \<and>
   (validate cfg \<noteq> [] \<longrightarrow>
      (\<exists>ns. notices (snd (main sv cfg checkbox s)) =
         notices s @
         Error (warning_sign @ '' Missing required configuration: '' @ join '', '' (validate cfg))
         # Info ''Please set up your `.env` file with the required API keys. See `.env.example` for reference.''
         # ns))"
proof -
  have shown: "validate cfg \<noteq> [] \<longrightarrow>
      (\<exists>ns. notices (snd (main sv cfg checkbox s)) =
         notices s @
         Error (warning_sign @ '' Missing required configuration: '' @ join '', '' (validate cfg))
         # Info ''Please set up your `.env` file with the required API keys. See `.env.example` for reference.''
         # ns)"
  proof
    assume v: "validate cfg \<noteq> []"
    have "\<exists>ns. notices (snd (main sv cfg checkbox s)) = notices (check_configuration cfg s) @ ns"
      unfolding main_unfold by (rule load_data_notices)
    then obtain ns where
      "notices (snd (main sv cfg checkbox s)) = notices (check_configuration cfg s) @ ns"
      by blast
    with v have "notices (snd (main sv cfg checkbox s)) =
         notices s @
         Error (warning_sign @ '' Missing required configuration: '' @ join '', '' (validate cfg))
         # Info ''Please set up your `.env` file with the required API keys. See `.env.example` for reference.''
         # ns"
      by (simp add: check_configuration_def st_info_def st_error_def Let_def)
    then show "\<exists>ns. notices (snd (main sv cfg checkbox s)) =
         notices s @
         Error (warning_sign @ '' Missing required configuration: '' @ join '', '' (validate cfg))
         # Info ''Please set up your `.env` file with the required API keys. See `.env.example` for reference.''
         # ns" by blast
  qed
  have rest: "load_data sv None dc False s =
     (Inr ([], [], Map.empty),
      st_warning ''Supabase client not configured. Cannot fetch live data.'' s) \<and>
   load_market sv None trades s = (Inr Map.empty, s) \<and>
   (\<not> is_supabase_configured cfg \<and>
    (is_topstep_configured cfg \<or> is_databento_configured cfg \<or> is_openai_configured cfg) \<longrightarrow>
      main sv cfg None s =
        (Inr ([], [], Map.empty),
         st_warning ''Supabase client not configured. Cannot fetch live data.''
           (check_configuration cfg s))) \<and>
   (\<not> is_supabase_configured cfg \<longrightarrow>
      main sv cfg (Some False) s =
        (Inr ([], [], Map.empty),
         st_warning ''Supabase client not configured. Cannot fetch live data.''
           (check_configuration cfg s))) \<and>
   (\<not> is_supabase_configured cfg \<and> \<not> is_topstep_configured cfg \<and>
    \<not> is_databento_configured cfg \<and> \<not> is_openai_configured cfg \<longrightarrow>
      main sv cfg None s = load_data sv None None True (check_configuration cfg s)) \<and>
   (validate cfg \<noteq> [] \<longrightarrow>
      check_configuration cfg s =
        st_info ''Please set up your `.env` file with the required API keys. See `.env.example` for reference.''
          (st_error (warning_sign @ '' Missing required configuration: ''
                     @ join '', '' (validate cfg)) s)) \<and>
   (validate cfg = [] \<longrightarrow> check_configuration cfg s = s)"
    by (simp add: main_unfold load_data_no_supabase load_market_none check_configuration_def Let_def)
  from rest shown main_unfold [of sv cfg checkbox s] show ?thesis by blast
qed

theorem C2_missing_configuration_witness:
  "main (demo_services demo_rows) cfg_market_only None run0 =
     (Inr ([], [], Map.empty),
      \<lparr>world = 0,
       notices =
         [Error (warning_sign @ '' Missing required configuration: SUPABASE_URL, SUPABASE_KEY, OPENAI_API_KEY''),
          Info ''Please set up your `.env` file with the required API keys. See `.env.example` for reference.'',
          Warning ''Supabase client not configured. Cannot fetch live data.''],
       calls = []\<rparr>)"
proof -
  have h: "\<not> is_supabase_configured cfg_market_only \<and>
    (is_topstep_configured cfg_market_only \<or> is_databento_configured cfg_market_only \<or>
     is_openai_configured cfg_market_only)"
    by (simp add: cfg_market_only_def)
  have v: "validate cfg_market_only \<noteq> []" by (simp add: cfg_market_only_def)
  note inst = C2_missing_configuration [of "demo_services demo_rows" None run0 "[]"
      cfg_market_only None]
  from inst [THEN conjunct2, THEN conjunct2, THEN conjunct1] h
  have m: "main (demo_services demo_rows) cfg_market_only None run0 =
        (Inr ([], [], Map.empty),
         st_warning ''Supabase client not configured. Cannot fetch live data.''
           (check_configuration cfg_market_only run0))" by blast
  from inst [THEN conjunct2, THEN conjunct2, THEN conjunct2, THEN conjunct2, THEN conjunct2,
      THEN conjunct1] v
  have c: "check_configuration cfg_market_only run0 =
        st_info ''Please set up your `.env` file with the required API keys. See `.env.example` for reference.''
          (st_error (warning_sign @ '' Missing required configuration: ''
                     @ join '', '' (validate cfg_market_only)) run0)" by blast
  from m c
  have "main (demo_services demo_rows) cfg_market_only None run0 =
        (Inr ([], [], Map.empty),
         st_warning ''Supabase client not configured. Cannot fetch live data.''
           (st_info ''Please set up your `.env` file with the required API keys. See `.env.example` for reference.''
          (st_error (warning_sign @ '' Missing required configuration: ''
                     @ join '', '' (validate cfg_market_only)) run0)))"
    by simp
  then show ?thesis
    by (simp add: st_warning_def st_info_def st_error_def run0_def cfg_market_only_def)
qed

text \<open>
  The claim as written fails when Supabase is not configured and Databento is: the
  checkbox is unset by default, a warning and an error are shown, and the trades are
  empty, where the sample generator would have given a hundred.
\<close>

theorem C2_silent_fallback_counterexample:
  "\<not> is_supabase_configured cfg_market_only \<and>
   fst (main (demo_services demo_rows) cfg_market_only None run0) = Inr ([], [], no_market_data) \<and>
   Warning ''Supabase client not configured. Cannot fetch live data.''
     \<in> set (notices (snd (main (demo_services demo_rows) cfg_market_only None run0))) \<and>
   notices (snd (main (demo_services demo_rows) cfg_market_only None run0)) \<noteq> notices run0 \<and>
   length (fst (generate_trades (demo_services demo_rows) 100 (world run0))) = 100"
  by (simp add: main_unfold load_data_no_supabase check_configuration_def cfg_market_only_def
        st_warning_def st_info_def st_error_def run0_def no_market_data_def demo_services_def)






end
